theory Spec2Isabelle
  imports Complex_Main "HOL-Library.Word"
begin

section \<open>The cluster lifecycle of kubetest/azure.go\<close>

text \<open>
  A shallow embedding of \<^verbatim>\<open>kubetest/azure.go\<close>. Every function of the file that
  takes part in construction (\<^verbatim>\<open>newAcsEngine\<close>) or in \<^verbatim>\<open>Up\<close> is a HOL function of
  the same name. A Go \<^verbatim>\<open>error\<close> is its message (\<^verbatim>\<open>fmt.Errorf\<close> builds messages
  from messages), a function that returns \<^verbatim>\<open>error\<close> returns a \<open>result\<close>, which
  has a third case for a run-time panic. Everything outside the file (the operating
  system, the network, child processes, the cloud client, library parsers) is a field
  of the record \<open>world\<close>: a call to it appends an event to the trace of the state, and
  what the call returns may depend on the whole trace before it, so that two calls of one
  capability are free to return different results. Log output is not modelled.
\<close>

subsection \<open>Errors and results\<close>

type_synonym error = string

datatype result = Success | Error error | Panic string

text \<open>\<^verbatim>\<open>%v\<close> of an \<^verbatim>\<open>error\<close> value: its message, and \<^verbatim>\<open><nil>\<close> for the nil error.\<close>

definition fmt_v :: "error option \<Rightarrow> string" where
  "fmt_v e = (case e of None \<Rightarrow> ''<nil>'' | Some m \<Rightarrow> m)"

subsection \<open>Data\<close>

record Creds =
  ClientID :: string
  ClientSecret :: string
  TenantID :: string
  SubscriptionID :: string
  StorageAccountName :: string
  StorageAccountKey :: string

text \<open>
  What \<^verbatim>\<open>encoding/json\<close> decodes into an \<^verbatim>\<open>interface{}\<close>: nil, bool, float64, string,
  a slice, or a \<^verbatim>\<open>map[string]interface{}\<close> (an association list read with \<open>map_of\<close>).
\<close>

datatype json =
    JNull
  | JBool bool
  | JNumber real
  | JString string
  | JArray "json list"
  | JObject "(string \<times> json) list"

type_synonym AzureClient = nat

text \<open>
  The struct \<^verbatim>\<open>Cluster\<close>. The two map fields are references: \<open>None\<close> is the nil map,
  \<open>Some a\<close> the map at address \<open>a\<close> of the heap. \<^verbatim>\<open>credentials\<close> is a pointer that the
  file only ever rebinds (to a fresh \<^verbatim>\<open>Creds\<close>) and never writes through; it is the
  pointed-to value here. \<^verbatim>\<open>ctx\<close> is always \<^verbatim>\<open>context.Background()\<close>.
\<close>

record Cluster =
  ctx :: unit
  credentials :: Creds
  location :: string
  resourceGroup :: string
  name :: string
  apiModelPath :: string
  dnsPrefix :: string
  templateJSON :: "nat option"
  parametersJSON :: "nat option"
  outputDir :: string
  sshPublicKey :: string
  adminUsername :: string
  adminPassword :: string
  masterVMSize :: string
  agentVMSize :: string
  acsCustomHyperKubeURL :: string
  acsCustomWinBinariesURL :: string
  acsEngineBinaryPath :: string
  azureClient :: AzureClient

text \<open>The package-level flag variables, read through their pointers.\<close>

record flags =
  acsResourceName :: string
  acsResourceGroupName :: string
  acsLocation :: string
  acsMasterVmSize :: string
  acsAgentVmSize :: string
  acsAdminUsername :: string
  acsAdminPassword :: string
  acsAgentPoolCount :: int
  acsAgentOSType :: string
  acsTemplatePath :: string
  acsDnsPrefix :: string
  acsEngineURL :: string
  acsEngineMD5 :: string
  acsSSHPublicKeyPath :: string
  acsWinBinariesURL :: string
  acsHyperKubeURL :: string
  acsCredentialsFile :: string
  acsOrchestratorRelease :: string
  acsWinZipBuildScript :: string
  acsNetworkPlugin :: string

text \<open>
  Modelled from the spec: the declarations of the ClusterSpec structs
  (\<^verbatim>\<open>AcsEngineApiModel\<close> and the profiles it holds) are not in azure.go. The records have
  the fields that the struct literal of \<^verbatim>\<open>generateTemplate\<close> names, which are the
  fields the spec lists for the ClusterSpec; a field name that two structs share carries
  the struct's initials.
\<close>

record KubernetesConfig =
  NetworkPlugin :: string
  CustomHyperkubeImage :: string
  CustomWindowsPackageURL :: string

record OrchestratorProfile =
  OrchestratorType :: string
  OrchestratorRelease :: string
  KubernetesConfig :: KubernetesConfig

record MasterProfile =
  mp_Count :: int
  DNSPrefix :: string
  mp_VMSize :: string
  mp_IPAddressCount :: int

record AgentPoolProfile =
  ap_Name :: string
  ap_VMSize :: string
  ap_Count :: int
  OSType :: string
  AvailabilityProfile :: string
  ap_IPAddressCount :: int
  PreProvisionExtension :: "(string \<times> string) list"
  Extensions :: "(string \<times> string) list list"

record LinuxProfile =
  lp_AdminUsername :: string
  SSHKeys :: "string list"

record WindowsProfile =
  wp_AdminUsername :: string
  wp_AdminPassword :: string

record ServicePrincipalProfile =
  sp_ClientID :: string
  Secret :: string

record Properties =
  OrchestratorProfile :: OrchestratorProfile
  MasterProfile :: MasterProfile
  AgentPoolProfiles :: "AgentPoolProfile list"
  LinuxProfile :: LinuxProfile
  WindowsProfile :: WindowsProfile
  ServicePrincipalProfile :: ServicePrincipalProfile
  ExtensionProfiles :: "(string \<times> string) list list"

record AcsEngineApiModel =
  ApiVersion :: string
  Location :: string
  Name :: string
  Tags :: "(string \<times> string) list"
  Properties :: Properties

subsection \<open>Events, the world and the state\<close>

text \<open>
  One event for each call that leaves the file; a fallible call records the error it
  returned (\<open>None\<close> is the nil error), \<open>Output\<close> the output too. \<open>Sleep\<close> holds the
  \<^verbatim>\<open>time.Duration\<close>, an int64 count of nanoseconds.
\<close>

datatype event =
    ReadFile string "error option"
  | WriteFile string string "error option"
  | ReadDir string "error option"
  | TempDir string string "error option"
  | Create string "error option"
  | Open_file string "error option"
  | Close string
  | Chmod string
  | Getwd "error option"
  | Setenv string string "error option"
  | HttpRead string "error option"
  | Sleep int
  | FinishRunning "string list" "error option"
  | Output "string list" "error + string"
  | NewV1
  | Now
  | GetAzureClient "error option"
  | EnsureResourceGroupCall string string "error option"
  | ValidateDeploymentCall string string "error option"
  | DeployTemplateCall string string "error option"
  | UploadFileToBlockBlobCall string string "error option"

text \<open>
  The capabilities the file consumes. A sum result has the error on the left. The first
  eight fields are pure library functions; the others take the trace before the call.
  \<^verbatim>\<open>toml.Unmarshal\<close> fills a \<^verbatim>\<open>Config\<close> as far as it gets and may return an error;
  \<^verbatim>\<open>url.Parse\<close> gives a URL, held as its \<^verbatim>\<open>String()\<close>; \<open>NewBlockBlobURL\<close> is the URL
  of a blob of a container; \<open>NewSharedKeyCredential\<close> returns no error, its result here
  is \<open>Some\<close> of the panic value when the library panics on the account key.
\<close>

record world =
  path_Join :: "string list \<Rightarrow> string"
  filepath_Base :: "string \<Rightarrow> string"
  json_Unmarshal :: "string \<Rightarrow> error + json"
  json_MarshalIndent :: "AcsEngineApiModel \<Rightarrow> error + string"
  toml_Unmarshal :: "string \<Rightarrow> Creds \<times> error option"
  url_Parse :: "string \<Rightarrow> error + string"
  NewBlockBlobURL :: "string \<Rightarrow> string \<Rightarrow> string"
  NewSharedKeyCredential :: "string \<Rightarrow> string \<Rightarrow> string option"
  ioutil_ReadFile :: "event list \<Rightarrow> string \<Rightarrow> error + string"
  ioutil_WriteFile :: "event list \<Rightarrow> string \<Rightarrow> string \<Rightarrow> error option"
  ioutil_ReadDir :: "event list \<Rightarrow> string \<Rightarrow> error + string list"
  ioutil_TempDir :: "event list \<Rightarrow> string \<Rightarrow> string \<Rightarrow> error + string"
  os_Create :: "event list \<Rightarrow> string \<Rightarrow> error option"
  os_Open :: "event list \<Rightarrow> string \<Rightarrow> error option"
  os_Getwd :: "event list \<Rightarrow> error + string"
  httpRead :: "event list \<Rightarrow> string \<Rightarrow> error option"
  control_FinishRunning :: "event list \<Rightarrow> string list \<Rightarrow> error option"
  control_Output :: "event list \<Rightarrow> string list \<Rightarrow> error + string"
  uuid_NewV1 :: "event list \<Rightarrow> string"
  time_Now :: "event list \<Rightarrow> string"
  getAzureClient :: "event list \<Rightarrow> string \<Rightarrow> string \<Rightarrow> string \<Rightarrow> string \<Rightarrow> error + AzureClient"
  EnsureResourceGroup :: "event list \<Rightarrow> AzureClient \<Rightarrow> string \<Rightarrow> string \<Rightarrow> error option"
  ValidateDeployment :: "event list \<Rightarrow> AzureClient \<Rightarrow> string \<Rightarrow> string \<Rightarrow>
     (string \<times> json) list option \<Rightarrow> (string \<times> json) list option \<Rightarrow> error option"
  DeployTemplate :: "event list \<Rightarrow> AzureClient \<Rightarrow> string \<Rightarrow> string \<Rightarrow>
     (string \<times> json) list option \<Rightarrow> (string \<times> json) list option \<Rightarrow> error option"
  UploadFileToBlockBlob :: "event list \<Rightarrow> string \<Rightarrow> string \<Rightarrow> error option"

text \<open>
  The state of the process: the trace, the environment variables (\<^verbatim>\<open>os.Getenv\<close> gives
  the empty string for an unset one), and the heap of maps with its allocation pointer.
\<close>

record state =
  trace :: "event list"
  env :: "string \<Rightarrow> string"
  heap :: "nat \<Rightarrow> (string \<times> json) list option"
  next_addr :: nat

definition emit :: "event \<Rightarrow> state \<Rightarrow> state" where
  "emit e s = s\<lparr>trace := trace s @ [e]\<rparr>"

definition err_of :: "error + 'a \<Rightarrow> error option" where
  "err_of r = (case r of Inl e \<Rightarrow> Some e | Inr _ \<Rightarrow> None)"

text \<open>
  \<^verbatim>\<open>os.Setenv\<close>: \<^verbatim>\<open>EINVAL\<close> for an empty key, a key with \<^verbatim>\<open>=\<close> or NUL, or a value with
  NUL; otherwise the variable is set.
\<close>

definition setenv_invalid :: "string \<Rightarrow> string \<Rightarrow> bool" where
  "setenv_invalid k v \<longleftrightarrow>
     k = [] \<or> CHR ''='' \<in> set k \<or> CHR 0x00 \<in> set k \<or> CHR 0x00 \<in> set v"

definition os_Setenv :: "string \<Rightarrow> string \<Rightarrow> state \<Rightarrow> error option \<times> state" where
  "os_Setenv k v s =
     (if setenv_invalid k v
      then (Some ''setenv: invalid argument'', emit (Setenv k v (Some ''setenv: invalid argument'')) s)
      else (None, emit (Setenv k v None) (s\<lparr>env := (env s)(k := v)\<rparr>)))"

text \<open>\<^verbatim>\<open>time.Duration(i) * time.Second\<close>: an int64 product, which wraps.\<close>

definition seconds :: "int \<Rightarrow> int" where
  "seconds i = sint (word_of_int i * 1000000000 :: 64 word)"

subsection \<open>Fetching\<close>

text \<open>
  The download loop, from counter \<open>i\<close> on. \<^verbatim>\<open>getAcsEngine\<close> and \<^verbatim>\<open>getZipBuildScript\<close>
  hold the same loop text, over \<^verbatim>\<open>*acsEngineURL\<close> and over \<^verbatim>\<open>buildScriptUrl\<close>. The
  \<^verbatim>\<open>err\<close> that \<^verbatim>\<open>if err := httpRead(...); err == nil\<close> declares is local to that
  \<^verbatim>\<open>if\<close>; the \<^verbatim>\<open>err\<close> formatted by \<^verbatim>\<open>fmt.Errorf("url=%s failed get %v: %v.", ...)\<close>
  and assigned on the next line is the function's own variable (nil after a successful
  \<^verbatim>\<open>os.Create\<close>), threaded here as \<open>err\<close>. The result is \<open>Some\<close> of the error returned
  from inside the loop, or \<open>None\<close> when the loop is left. \<^verbatim>\<open>retry\<close> and \<^verbatim>\<open>i\<close> are Go
  \<^verbatim>\<open>int\<close>s: \<open>i + 1\<close> is at most \<^verbatim>\<open>retry\<close>, so the counter does not wrap, and the
  sleep alone is computed in int64.
\<close>

definition download_error :: "string \<Rightarrow> string \<Rightarrow> error option \<Rightarrow> error" where
  "download_error url downloadPath err =
     ''url='' @ url @ '' failed get '' @ downloadPath @ '': '' @ fmt_v err @ ''.''"

function download_loop ::
  "world \<Rightarrow> string \<Rightarrow> string \<Rightarrow> int \<Rightarrow> int \<Rightarrow> error option \<Rightarrow> state \<Rightarrow> error option \<times> state"
where
  "download_loop w url downloadPath retry i err s =
     (if i < retry then
        (let r = httpRead w (trace s) url;
             s1 = emit (HttpRead url r) s
         in if r = None then (None, s1)
            else
              (let err1 = download_error url downloadPath err
               in if i = retry - 1 then (Some err1, s1)
                  else download_loop w url downloadPath retry (i + 1) (Some err1)
                         (emit (Sleep (seconds i)) s1)))
      else (None, s))"
  by pat_completeness auto
termination
  by (relation "measure (\<lambda>(w, u, p, retry, i, err, s). nat (retry - i))") auto

text \<open>\<^verbatim>\<open>getZipBuildScript\<close>; the deferred \<^verbatim>\<open>f.Close()\<close> runs at each return after it.\<close>

definition getZipBuildScript ::
  "world \<Rightarrow> string \<Rightarrow> int \<Rightarrow> state \<Rightarrow> (error + string) \<times> state"
where
  "getZipBuildScript w buildScriptUrl retry s =
     (let downloadPath = path_Join w [env s ''HOME'', ''build-win-zip.sh''];
          cr = os_Create w (trace s) downloadPath;
          s1 = emit (Create downloadPath cr) s
      in case cr of
           Some e \<Rightarrow> (Inl e, s1)
         | None \<Rightarrow>
             (case download_loop w buildScriptUrl downloadPath retry 0 None s1 of
                (Some e, s2) \<Rightarrow> (Inl e, emit (Close downloadPath) s2)
              | (None, s2) \<Rightarrow>
                  (Inr downloadPath, emit (Close downloadPath) (emit (Chmod downloadPath) s2))))"

subsection \<open>Construction\<close>

text \<open>
  \<^verbatim>\<open>getAzCredentials\<close> and \<^verbatim>\<open>getARMClient\<close> have no statement that can panic: they
  return the error, or \<open>None\<close> for nil, with the Cluster and the state.
\<close>

definition getAzCredentials ::
  "flags \<Rightarrow> world \<Rightarrow> Cluster \<Rightarrow> state \<Rightarrow> error option \<times> Cluster \<times> state"
where
  "getAzCredentials cfg w c s =
     (let r = ioutil_ReadFile w (trace s) (acsCredentialsFile cfg);
          s1 = emit (ReadFile (acsCredentialsFile cfg) (err_of r)) s
      in case r of
           Inl err \<Rightarrow>
             (Some (''Error reading credentials file '' @ acsCredentialsFile cfg @ '' '' @ err), c, s1)
         | Inr content \<Rightarrow>
             (case toml_Unmarshal w content of
                (config_Creds, err) \<Rightarrow>
                  (let c1 = c\<lparr>credentials := config_Creds\<rparr>
                   in case err of
                        Some e \<Rightarrow>
                          (Some (''Error parsing credentials file '' @ acsCredentialsFile cfg @ '' '' @ e),
                           c1, s1)
                      | None \<Rightarrow> (None, c1, s1))))"

text \<open>\<^verbatim>\<open>checkParams\<close> assigns defaults to the flag variables: it returns the flags too.\<close>

definition checkParams :: "flags \<Rightarrow> world \<Rightarrow> state \<Rightarrow> error option \<times> flags \<times> state" where
  "checkParams cfg w s =
     (if acsCredentialsFile cfg = '''' then (Some ''No credentials file path specified'', cfg, s)
      else
        (let (cfg1, s1) =
               (if acsResourceName cfg = ''''
                then (cfg\<lparr>acsResourceName := ''kubetest-'' @ uuid_NewV1 w (trace s)\<rparr>, emit NewV1 s)
                else (cfg, s));
             cfg2 = (if acsResourceGroupName cfg1 = ''''
                     then cfg1\<lparr>acsResourceGroupName := acsResourceName cfg1 @ ''-rg''\<rparr> else cfg1);
             cfg3 = (if acsDnsPrefix cfg2 = ''''
                     then cfg2\<lparr>acsDnsPrefix := acsResourceName cfg2\<rparr> else cfg2);
             cfg4 = (if acsSSHPublicKeyPath cfg3 = ''''
                     then cfg3\<lparr>acsSSHPublicKeyPath := env s1 ''HOME'' @ ''/.ssh/id_rsa.pub''\<rparr>
                     else cfg3)
         in if acsAdminUsername cfg4 = ''''
            then (Some ''Error parsing flags. No admin username specified'', cfg4, s1)
            else if acsAdminPassword cfg4 = ''''
            then (Some ''Error parting flags. No admin password specified.'', cfg4, s1)
            else (None, cfg4, s1)))"

text \<open>
  \<^verbatim>\<open>getARMClient\<close>. The environment it passes is the constant
  \<^verbatim>\<open>azure.EnvironmentFromName("AzurePublicCloud")\<close>, whose error is overwritten unread;
  it is part of the capability \<open>getAzureClient\<close>, which is declared outside azure.go.
\<close>

definition getARMClient :: "world \<Rightarrow> Cluster \<Rightarrow> state \<Rightarrow> error option \<times> Cluster \<times> state" where
  "getARMClient w c s =
     (let r = getAzureClient w (trace s) (SubscriptionID (credentials c)) (ClientID (credentials c))
                (TenantID (credentials c)) (ClientSecret (credentials c));
          s1 = emit (GetAzureClient (err_of r)) s
      in case r of
           Inl err \<Rightarrow> (Some (''Error trying to get Azure Client: '' @ err), c, s1)
         | Inr client \<Rightarrow> (None, c\<lparr>azureClient := client\<rparr>, s1))"

definition empty_Creds :: Creds where
  "empty_Creds = \<lparr>ClientID = '''', ClientSecret = '''', TenantID = '''', SubscriptionID = '''',
     StorageAccountName = '''', StorageAccountKey = ''''\<rparr>"

text \<open>
  \<^verbatim>\<open>newAcsEngine\<close>. The fields its struct literal leaves out have their zero values (the
  nil client is \<open>0\<close>). The value of \<^verbatim>\<open>c.getAzCredentials()\<close> is not used by the source:
  only the Cluster and the state it leaves go on.
\<close>

definition newAcsEngine :: "flags \<Rightarrow> world \<Rightarrow> state \<Rightarrow> (error + Cluster) \<times> flags \<times> state" where
  "newAcsEngine cfg0 w s0 =
     (case checkParams cfg0 w s0 of
        (Some err, cfg, s) \<Rightarrow> (Inl (''Error creating Azure K8S cluster: '' @ err), cfg, s)
      | (None, cfg, s) \<Rightarrow>
          (let td = ioutil_TempDir w (trace s) (env s ''HOME'') ''acs'';
               tempdir = (case td of Inl _ \<Rightarrow> '''' | Inr d \<Rightarrow> d);
               s1 = emit (TempDir (env s ''HOME'') ''acs'' (err_of td)) s;
               rk = ioutil_ReadFile w (trace s1) (acsSSHPublicKeyPath cfg);
               s2 = emit (ReadFile (acsSSHPublicKeyPath cfg) (err_of rk)) s1
           in case rk of
                Inl err \<Rightarrow>
                  (Inl (''Error reading SSH Key '' @ acsSSHPublicKeyPath cfg @ '' '' @ err), cfg, s2)
              | Inr sshKey \<Rightarrow>
                  (let c = \<lparr>ctx = (), credentials = empty_Creds, location = acsLocation cfg,
                            resourceGroup = acsResourceGroupName cfg, name = acsResourceName cfg,
                            apiModelPath = acsTemplatePath cfg, dnsPrefix = acsDnsPrefix cfg,
                            templateJSON = None, parametersJSON = None, outputDir = tempdir,
                            sshPublicKey = sshKey, adminUsername = '''', adminPassword = '''',
                            masterVMSize = '''', agentVMSize = '''', acsCustomHyperKubeURL = '''',
                            acsCustomWinBinariesURL = '''', acsEngineBinaryPath = ''acs-engine'',
                            azureClient = 0\<rparr>
                   in case getAzCredentials cfg w c s2 of
                        (_, c1, s3) \<Rightarrow>
                          (case getARMClient w c1 s3 of
                             (Some err, c2, s4) \<Rightarrow>
                               (Inl (''Failed to generate ARM client: '' @ err), cfg, s4)
                           | (None, c2, s4) \<Rightarrow>
                               (case os_Setenv ''KUBERNETES_CONFORMANCE_TEST'' ''yes'' s4 of
                                  (Some err, s5) \<Rightarrow> (Inl err, cfg, s5)
                                | (None, s5) \<Rightarrow>
                                    (case os_Setenv ''KUBERNETES_CONFORMANCE_PROVIDER'' ''azure'' s5 of
                                       (Some err, s6) \<Rightarrow> (Inl err, cfg, s6)
                                     | (None, s6) \<Rightarrow> (Inr c2, cfg, s6)))))))"

subsection \<open>The specification file\<close>

text \<open>
  The value \<^verbatim>\<open>v\<close> of \<^verbatim>\<open>generateTemplate\<close> when it is serialised: the struct literal,
  then the two override assignments. \<open>now\<close> is \<^verbatim>\<open>time.Now().String()\<close>.
\<close>

definition apiModel_v :: "flags \<Rightarrow> Cluster \<Rightarrow> string \<Rightarrow> AcsEngineApiModel" where
  "apiModel_v cfg c now =
     \<lparr>ApiVersion = ''vlabs'', Location = location c, Name = name c, Tags = [(''date'', now)],
      Properties =
        \<lparr>OrchestratorProfile =
           \<lparr>OrchestratorType = ''Kubernetes'', OrchestratorRelease = acsOrchestratorRelease cfg,
            KubernetesConfig =
              \<lparr>NetworkPlugin = acsNetworkPlugin cfg,
               CustomHyperkubeImage =
                 (if acsHyperKubeURL cfg \<noteq> '''' then acsHyperKubeURL cfg
                  else if acsCustomHyperKubeURL c \<noteq> '''' then acsCustomHyperKubeURL c else ''''),
               CustomWindowsPackageURL =
                 (if acsWinBinariesURL cfg \<noteq> '''' then acsWinBinariesURL cfg
                  else if acsCustomWinBinariesURL c \<noteq> '''' then acsCustomWinBinariesURL c
                  else '''')\<rparr>\<rparr>,
         MasterProfile =
           \<lparr>mp_Count = 1, DNSPrefix = dnsPrefix c, mp_VMSize = acsMasterVmSize cfg,
            mp_IPAddressCount = 200\<rparr>,
         AgentPoolProfiles =
           [\<lparr>ap_Name = ''agentpool0'', ap_VMSize = acsAgentVmSize cfg,
             ap_Count = acsAgentPoolCount cfg, OSType = acsAgentOSType cfg,
             AvailabilityProfile = ''AvailabilitySet'', ap_IPAddressCount = 200,
             PreProvisionExtension = [(''name'', ''node_setup''), (''singleOrAll'', ''all'')],
             Extensions = [[(''name'', ''winrm'')]]\<rparr>],
         LinuxProfile = \<lparr>lp_AdminUsername = acsAdminUsername cfg, SSHKeys = [sshPublicKey c]\<rparr>,
         WindowsProfile =
           \<lparr>wp_AdminUsername = acsAdminUsername cfg, wp_AdminPassword = acsAdminPassword cfg\<rparr>,
         ServicePrincipalProfile =
           \<lparr>sp_ClientID = ClientID (credentials c), Secret = ClientSecret (credentials c)\<rparr>,
         ExtensionProfiles =
           [[(''name'', ''node_setup''), (''version'', ''v1''),
             (''rootURL'', ''https://k8swin.blob.core.windows.net/k8s-windows/preprovision_extensions/''),
             (''script'', ''node_setup.ps1'')],
            [(''name'', ''winrm''), (''version'', ''v1'')]]\<rparr>\<rparr>"

text \<open>
  \<^verbatim>\<open>generateTemplate\<close>. \<^verbatim>\<open>apiModel, _ := json.MarshalIndent(...)\<close> drops the error,
  which is nil for a value like \<^verbatim>\<open>v\<close> (strings, integers, string maps and slices); with
  an error the bytes would be nil, and the file written empty.
\<close>

definition generateTemplate :: "flags \<Rightarrow> world \<Rightarrow> Cluster \<Rightarrow> state \<Rightarrow> result \<times> Cluster \<times> state" where
  "generateTemplate cfg w c s =
     (let v = apiModel_v cfg c (time_Now w (trace s));
          s1 = emit Now s;
          apiModel = (case json_MarshalIndent w v of Inl _ \<Rightarrow> '''' | Inr b \<Rightarrow> b);
          c1 = c\<lparr>apiModelPath := path_Join w [outputDir c, ''kubernetes.json'']\<rparr>;
          err = ioutil_WriteFile w (trace s1) (apiModelPath c1) apiModel;
          s2 = emit (WriteFile (apiModelPath c1) apiModel err) s1
      in case err of
           Some e \<Rightarrow> (Error (''Cannot write to file: '' @ e), c1, s2)
         | None \<Rightarrow> (Success, c1, s2))"

subsection \<open>The generator tool\<close>

text \<open>
  \<^verbatim>\<open>getAcsEngine\<close> after a successful \<^verbatim>\<open>os.Create\<close> and up to its return; the deferred
  \<^verbatim>\<open>f.Close()\<close> is added by \<open>getAcsEngine\<close> below. \<^verbatim>\<open>strings.Split(o, " ")[0]\<close> is the
  part of \<open>o\<close> before its first space.
\<close>

definition getAcsEngine_body ::
  "flags \<Rightarrow> world \<Rightarrow> string \<Rightarrow> int \<Rightarrow> Cluster \<Rightarrow> state \<Rightarrow> result \<times> Cluster \<times> state"
where
  "getAcsEngine_body cfg w downloadPath retry c s =
     (case download_loop w (acsEngineURL cfg) downloadPath retry 0 None s of
        (Some e, s1) \<Rightarrow> (Error e, c, s1)
      | (None, s1) \<Rightarrow>
          (let s2 = emit (Close downloadPath) s1;
               (md5, s3) =
                 (if acsEngineMD5 cfg \<noteq> '''' then
                    (let o_r = control_Output w (trace s2) [''md5sum'', downloadPath];
                         s2' = emit (Output [''md5sum'', downloadPath] o_r) s2
                     in case o_r of
                          Inl err \<Rightarrow> (Error err, s2')
                        | Inr out \<Rightarrow>
                            if takeWhile (\<lambda>ch. ch \<noteq> CHR '' '') out \<noteq> acsEngineMD5 cfg
                            then (Error ''Wrong md5 sum for acs-engine.'', s2')
                            else (Success, s2'))
                  else (Success, s2))
           in if md5 \<noteq> Success then (md5, c, s3)
              else
                (let gw = os_Getwd w (trace s3);
                     s4 = emit (Getwd (err_of gw)) s3
                 in case gw of
                      Inl err \<Rightarrow> (Error (''Unable to get current directory: '' @ err @ '' .''), c, s4)
                    | Inr cwd \<Rightarrow>
                        (let tar = [''tar'', ''-xzf'', downloadPath, ''--strip'', ''1''];
                             r = control_FinishRunning w (trace s4) tar;
                             s5 = emit (FinishRunning tar r) s4
                         in case r of
                              Some err \<Rightarrow> (Error err, c, s5)
                            | None \<Rightarrow>
                                (Success,
                                 c\<lparr>acsEngineBinaryPath := path_Join w [cwd, ''acs-engine'']\<rparr>, s5)))))"

definition getAcsEngine ::
  "flags \<Rightarrow> world \<Rightarrow> int \<Rightarrow> Cluster \<Rightarrow> state \<Rightarrow> result \<times> Cluster \<times> state"
where
  "getAcsEngine cfg w retry c s =
     (let downloadPath = path_Join w [env s ''HOME'', ''acs-engine.tar.gz''];
          cr = os_Create w (trace s) downloadPath;
          s1 = emit (Create downloadPath cr) s
      in case cr of
           Some e \<Rightarrow> (Error e, c, s1)
         | None \<Rightarrow>
             (case getAcsEngine_body cfg w downloadPath retry c s1 of
                (r, c1, s2) \<Rightarrow> (r, c1, emit (Close downloadPath) s2)))"

definition generateARMTemplates :: "world \<Rightarrow> Cluster \<Rightarrow> state \<Rightarrow> result \<times> state" where
  "generateARMTemplates w c s =
     (let cmd = [acsEngineBinaryPath c, ''generate'', apiModelPath c, ''--output-directory'', outputDir c];
          r = control_FinishRunning w (trace s) cmd;
          s1 = emit (FinishRunning cmd r) s
      in case r of
           Some err \<Rightarrow> (Error (''Failed to generate ARM templates: '' @ err @ ''.''), s1)
         | None \<Rightarrow> (Success, s1))"

subsection \<open>Maps on the heap, and loading the ARM templates\<close>

text \<open>\<^verbatim>\<open>make(map[string]interface{})\<close> and friends: a new map at the next free address.\<close>

definition alloc :: "(string \<times> json) list \<Rightarrow> state \<Rightarrow> nat \<times> state" where
  "alloc m s = (next_addr s, s\<lparr>heap := (heap s)(next_addr s \<mapsto> m), next_addr := Suc (next_addr s)\<rparr>)"

text \<open>The content of the map a reference stands for; the nil map has none.\<close>

definition deref :: "state \<Rightarrow> nat option \<Rightarrow> (string \<times> json) list option" where
  "deref s m = (case m of None \<Rightarrow> None | Some a \<Rightarrow> heap s a)"

text \<open>\<^verbatim>\<open>m[key]\<close>: the value, or nil (\<open>None\<close>) for a missing key and for the nil map.\<close>

definition map_index :: "state \<Rightarrow> nat option \<Rightarrow> string \<Rightarrow> json option" where
  "map_index s m key = (case deref s m of None \<Rightarrow> None | Some kvs \<Rightarrow> map_of kvs key)"

definition json_kind :: "json \<Rightarrow> string" where
  "json_kind v = (case v of JNull \<Rightarrow> ''null'' | JBool _ \<Rightarrow> ''bool'' | JNumber _ \<Rightarrow> ''number''
     | JString _ \<Rightarrow> ''string'' | JArray _ \<Rightarrow> ''array'' | JObject _ \<Rightarrow> ''object'')"

text \<open>
  \<^verbatim>\<open>json.Unmarshal(data, &m)\<close> for a variable \<open>m\<close> of type \<^verbatim>\<open>map[string]interface{}\<close>, as
  \<^verbatim>\<open>encoding/json\<close> documents it: a syntax error leaves \<open>m\<close> alone; \<^verbatim>\<open>null\<close> sets \<open>m\<close> to
  nil; an object is stored into the map \<open>m\<close> refers to, over the entries it has (into a
  new map when \<open>m\<close> is nil); any other document is an \<^verbatim>\<open>UnmarshalTypeError\<close>.
\<close>

definition json_Unmarshal_map ::
  "world \<Rightarrow> string \<Rightarrow> nat option \<Rightarrow> state \<Rightarrow> error option \<times> nat option \<times> state"
where
  "json_Unmarshal_map w data m s =
     (case json_Unmarshal w data of
        Inl e \<Rightarrow> (Some e, m, s)
      | Inr JNull \<Rightarrow> (None, None, s)
      | Inr (JObject kvs) \<Rightarrow>
          (case m of
             None \<Rightarrow> (case alloc kvs s of (a, s1) \<Rightarrow> (None, Some a, s1))
           | Some a \<Rightarrow>
               (None, Some a,
                s\<lparr>heap := (heap s)(a \<mapsto> kvs @ (case heap s a of None \<Rightarrow> [] | Some old \<Rightarrow> old))\<rparr>))
      | Inr v \<Rightarrow>
          (Some (''json: cannot unmarshal '' @ json_kind v
                   @ '' into Go value of type map[string]interface {}''), m, s))"

text \<open>The dynamic type in the message of a failed type assertion.\<close>

definition go_type :: "json option \<Rightarrow> string" where
  "go_type v = (case v of None \<Rightarrow> ''nil'' | Some JNull \<Rightarrow> ''nil'' | Some (JBool _) \<Rightarrow> ''bool''
     | Some (JNumber _) \<Rightarrow> ''float64'' | Some (JString _) \<Rightarrow> ''string''
     | Some (JArray _) \<Rightarrow> ''[]interface {}'' | Some (JObject _) \<Rightarrow> ''map[string]interface {}'')"

text \<open>
  The last statement of \<^verbatim>\<open>loadARMTemplates\<close>,
  \<^verbatim>\<open>c.parametersJSON = c.parametersJSON["parameters"].(map[string]interface{})\<close>: a
  one-result type assertion, which panics unless the value is a map. The map inside the
  document, which the decoder allocated, gets its address here.
\<close>

definition unwrap_parameters :: "Cluster \<Rightarrow> state \<Rightarrow> result \<times> Cluster \<times> state" where
  "unwrap_parameters c s =
     (case map_index s (parametersJSON c) ''parameters'' of
        Some (JObject inner) \<Rightarrow>
          (case alloc inner s of (a, s1) \<Rightarrow> (Success, c\<lparr>parametersJSON := Some a\<rparr>, s1))
      | v \<Rightarrow>
          (Panic (''interface conversion: interface {} is '' @ go_type v
                    @ '', not map[string]interface {}''), c, s))"

definition loadARMTemplates :: "world \<Rightarrow> Cluster \<Rightarrow> state \<Rightarrow> result \<times> Cluster \<times> state" where
  "loadARMTemplates w c s =
     (let tp = path_Join w [outputDir c, ''azuredeploy.json''];
          rt = ioutil_ReadFile w (trace s) tp;
          s1 = emit (ReadFile tp (err_of rt)) s
      in case rt of
           Inl err \<Rightarrow> (Error (''Error reading ARM template file: '' @ err @ ''.''), c, s1)
         | Inr template \<Rightarrow>
             (case alloc [] s1 of
                (a, s2) \<Rightarrow>
                  (case json_Unmarshal_map w template (Some a) s2 of
                     (Some err, m, s3) \<Rightarrow>
                       (Error (''Error unmarshall template '' @ err), c\<lparr>templateJSON := m\<rparr>, s3)
                   | (None, m, s3) \<Rightarrow>
                       (let c1 = c\<lparr>templateJSON := m\<rparr>;
                            pp = path_Join w [outputDir c1, ''azuredeploy.parameters.json''];
                            rp = ioutil_ReadFile w (trace s3) pp;
                            s4 = emit (ReadFile pp (err_of rp)) s3
                        in case rp of
                             Inl err \<Rightarrow> (Error (''Error reading ARM parameters file: '' @ err), c1, s4)
                           | Inr parameters \<Rightarrow>
                               (case alloc [] s4 of
                                  (b, s5) \<Rightarrow>
                                    (case json_Unmarshal_map w parameters (Some b) s5 of
                                       (Some err, m', s6) \<Rightarrow>
                                         (Error (''Error unmarshall parameters '' @ err),
                                          c1\<lparr>parametersJSON := m'\<rparr>, s6)
                                     | (None, m', s6) \<Rightarrow>
                                         unwrap_parameters (c1\<lparr>parametersJSON := m'\<rparr>) s6))))))"

subsection \<open>Creating the cluster\<close>

text \<open>
  \<^verbatim>\<open>createCluster\<close>. \<^verbatim>\<open>ioutil.ReadDir\<close> returns the nil slice with an error, and the
  error is dropped; \<^verbatim>\<open>kubecfgDir[0]\<close> on an empty slice is a run-time panic. The error
  of \<^verbatim>\<open>os.Setenv\<close> is dropped too. The cloud client gets pointers to the two map
  fields: the capabilities take what the maps hold.
\<close>

definition createCluster :: "world \<Rightarrow> Cluster \<Rightarrow> state \<Rightarrow> result \<times> Cluster \<times> state" where
  "createCluster w c s =
     (let dir = path_Join w [outputDir c, ''kubeconfig''];
          rd = ioutil_ReadDir w (trace s) dir;
          kubecfgDir = (case rd of Inl _ \<Rightarrow> [] | Inr l \<Rightarrow> l);
          s1 = emit (ReadDir dir (err_of rd)) s
      in case kubecfgDir of
           [] \<Rightarrow> (Panic ''runtime error: index out of range'', c, s1)
         | entry # _ \<Rightarrow>
             (let kubecfg = path_Join w [outputDir c, ''kubeconfig'', entry];
                  s2 = snd (os_Setenv ''KUBECONFIG'' kubecfg s1);
                  e = EnsureResourceGroup w (trace s2) (azureClient c) (resourceGroup c) (location c);
                  s3 = emit (EnsureResourceGroupCall (resourceGroup c) (location c) e) s2
              in case e of
                   Some err \<Rightarrow> (Error (''Could not ensure resource group: '' @ err), c, s3)
                 | None \<Rightarrow>
                     (let v = ValidateDeployment w (trace s3) (azureClient c) (resourceGroup c) (name c)
                                (deref s3 (templateJSON c)) (deref s3 (parametersJSON c));
                          s4 = emit (ValidateDeploymentCall (resourceGroup c) (name c) v) s3
                      in case v of
                           Some err \<Rightarrow> (Error (''Template invalid: '' @ err), c, s4)
                         | None \<Rightarrow>
                             (let d = DeployTemplate w (trace s4) (azureClient c) (resourceGroup c)
                                        (name c) (deref s4 (templateJSON c))
                                        (deref s4 (parametersJSON c));
                                  s5 = emit (DeployTemplateCall (resourceGroup c) (name c) d) s4
                              in case d of
                                   Some err \<Rightarrow> (Error (''Cannot deploy: '' @ err), c, s5)
                                 | None \<Rightarrow> (Success, c, s5)))))"

subsection \<open>Building the artifacts\<close>

definition buildHyperKube :: "world \<Rightarrow> Cluster \<Rightarrow> state \<Rightarrow> result \<times> Cluster \<times> state" where
  "buildHyperKube w c s =
     (let s1 = snd (os_Setenv ''VERSION'' (env s ''BUILD_NUMBER'') s);
          s2 = emit (Getwd (err_of (os_Getwd w (trace s1)))) s1;
          r = control_FinishRunning w (trace s2) [''hack/dev-push-hyperkube.sh''];
          s3 = emit (FinishRunning [''hack/dev-push-hyperkube.sh''] r) s2
      in case r of
           Some err \<Rightarrow> (Error err, c, s3)
         | None \<Rightarrow>
             (Success,
              c\<lparr>acsCustomHyperKubeURL := env s3 ''REGISTRY'' @ ''/hyperkube-amd64:'' @ env s3 ''VERSION''\<rparr>,
              s3))"

text \<open>
  \<^verbatim>\<open>uploadZip\<close>. The error of \<^verbatim>\<open>url.Parse\<close> is dropped and the nil \<^verbatim>\<open>*url.URL\<close> it
  comes with is dereferenced at once.
\<close>

definition uploadZip :: "world \<Rightarrow> string \<Rightarrow> Cluster \<Rightarrow> state \<Rightarrow> result \<times> Cluster \<times> state" where
  "uploadZip w zipPath c s =
     (case NewSharedKeyCredential w (StorageAccountName (credentials c))
             (StorageAccountKey (credentials c)) of
        Some p \<Rightarrow> (Panic p, c, s)
      | None \<Rightarrow>
          (let containerName = env s ''AZ_STORAGE_CONTAINER_NAME''
           in case url_Parse w (''https://'' @ StorageAccountName (credentials c)
                                 @ ''.blob.core.windows.net/'' @ containerName) of
                Inl _ \<Rightarrow>
                  (Panic ''runtime error: invalid memory address or nil pointer dereference'', c, s)
              | Inr containerURL \<Rightarrow>
                  (let op = os_Open w (trace s) zipPath;
                       s1 = emit (Open_file zipPath op) s
                   in case op of
                        Some err \<Rightarrow>
                          (Error (''Failed to open file '' @ zipPath @ '' . Error '' @ err), c, s1)
                      | None \<Rightarrow>
                          (let blobURL = NewBlockBlobURL w containerURL (filepath_Base w zipPath);
                               err1 = UploadFileToBlockBlob w (trace s1) zipPath blobURL;
                               s2 = emit (Close zipPath)
                                      (emit (UploadFileToBlockBlobCall zipPath blobURL err1) s1)
                           in case err1 of
                                Some err \<Rightarrow> (Error err, c, s2)
                              | None \<Rightarrow> (Success, c\<lparr>acsCustomWinBinariesURL := blobURL\<rparr>, s2)))))"

definition buildWinZip :: "flags \<Rightarrow> world \<Rightarrow> Cluster \<Rightarrow> state \<Rightarrow> result \<times> Cluster \<times> state" where
  "buildWinZip cfg w c s =
     (let zip_name = env s ''BUILD_NUMBER'' @ ''.zip'';
          build_folder = path_Join w [env s ''HOME'', ''winbuild''];
          zip_path = path_Join w [env s ''HOME'', zip_name]
      in case getZipBuildScript w (acsWinZipBuildScript cfg) 2 s of
           (Inl err, s1) \<Rightarrow> (Error err, c, s1)
         | (Inr build_script_path, s1) \<Rightarrow>
             (let cmd = [build_script_path, ''-u'', zip_name, ''-z'', build_folder];
                  r = control_FinishRunning w (trace s1) cmd;
                  s2 = emit (FinishRunning cmd r) s1
              in case r of
                   Some err \<Rightarrow> (Error err, c, s2)
                 | None \<Rightarrow> uploadZip w zip_path c s2))"

subsection \<open>Up\<close>

text \<open>
  \<^verbatim>\<open>Up\<close> has a value receiver: it works on its own copy \<open>c\<close> of the Cluster, hands the
  copy from stage to stage, and returns only the error. A panic of a stage ends the run.
\<close>

definition Up :: "flags \<Rightarrow> world \<Rightarrow> Cluster \<Rightarrow> state \<Rightarrow> result \<times> state" where
  "Up cfg w c s =
     (case (if acsHyperKubeURL cfg = '''' then buildHyperKube w c s else (Success, c, s)) of
        (Error err, c1, s1) \<Rightarrow> (Error (''Problem building hyperkube '' @ err), s1)
      | (Panic p, c1, s1) \<Rightarrow> (Panic p, s1)
      | (Success, c1, s1) \<Rightarrow>
     (case (if acsWinBinariesURL cfg = '''' then buildWinZip cfg w c1 s1 else (Success, c1, s1)) of
        (Error err, c2, s2) \<Rightarrow> (Error (''Problem building windowsZipFile '' @ err), s2)
      | (Panic p, c2, s2) \<Rightarrow> (Panic p, s2)
      | (Success, c2, s2) \<Rightarrow>
     (case (if apiModelPath c2 = '''' then generateTemplate cfg w c2 s2 else (Success, c2, s2)) of
        (Error err, c3, s3) \<Rightarrow> (Error (''Failed to generate apiModel: '' @ err), s3)
      | (Panic p, c3, s3) \<Rightarrow> (Panic p, s3)
      | (Success, c3, s3) \<Rightarrow>
     (case (if acsEngineURL cfg \<noteq> '''' then getAcsEngine cfg w 2 c3 s3 else (Success, c3, s3)) of
        (Error err, c4, s4) \<Rightarrow> (Error (''Failed to get ACS Engine binary: '' @ err), s4)
      | (Panic p, c4, s4) \<Rightarrow> (Panic p, s4)
      | (Success, c4, s4) \<Rightarrow>
     (case generateARMTemplates w c4 s4 of
        (Error err, s5) \<Rightarrow> (Error (''Failed to generate ARM templates: '' @ err), s5)
      | (Panic p, s5) \<Rightarrow> (Panic p, s5)
      | (Success, s5) \<Rightarrow>
     (case loadARMTemplates w c4 s5 of
        (Error err, c6, s6) \<Rightarrow> (Error (''Error loading ARM templates: '' @ err), s6)
      | (Panic p, c6, s6) \<Rightarrow> (Panic p, s6)
      | (Success, c6, s6) \<Rightarrow>
     (case createCluster w c6 s6 of
        (Error err, c7, s7) \<Rightarrow> (Error (''Error creating cluster: '' @ err), s7)
      | (Panic p, c7, s7) \<Rightarrow> (Panic p, s7)
      | (Success, c7, s7) \<Rightarrow> (Success, s7))))))))"

text \<open>
  The caller holds the \<^verbatim>\<open>*Cluster\<close> that \<^verbatim>\<open>newAcsEngine\<close> returned; \<open>cluster_obj\<close> is
  the struct it points to. The call \<^verbatim>\<open>c.Up()\<close> copies the struct into the receiver.
\<close>

record program =
  cluster_obj :: Cluster
  st :: state

definition call_Up :: "flags \<Rightarrow> world \<Rightarrow> program \<Rightarrow> result \<times> program" where
  "call_Up cfg w p = (case Up cfg w (cluster_obj p) (st p) of (r, s') \<Rightarrow> (r, p\<lparr>st := s'\<rparr>))"

declare download_loop.simps [simp del]

subsection \<open>Traces\<close>

text \<open>The events of \<open>s'\<close> after those of \<open>s\<close>, for a state \<open>s'\<close> reached from \<open>s\<close>.\<close>

definition added :: "state \<Rightarrow> state \<Rightarrow> event list" where
  "added s s' = drop (length (trace s)) (trace s')"

text \<open>
  The calls that only \<^verbatim>\<open>buildHyperKube\<close> makes: setting \<^verbatim>\<open>VERSION\<close>, and running
  \<^verbatim>\<open>hack/dev-push-hyperkube.sh\<close>.
\<close>

definition buildHyperKube_event :: "event \<Rightarrow> bool" where
  "buildHyperKube_event e =
     (case e of
        Setenv k v r \<Rightarrow> k = ''VERSION''
      | FinishRunning cmd r \<Rightarrow> cmd = [''hack/dev-push-hyperkube.sh'']
      | _ \<Rightarrow> False)"

text \<open>The calls to the cloud client.\<close>

definition cloud_event :: "event \<Rightarrow> bool" where
  "cloud_event e =
     (case e of
        EnsureResourceGroupCall _ _ _ \<Rightarrow> True
      | ValidateDeploymentCall _ _ _ \<Rightarrow> True
      | DeployTemplateCall _ _ _ \<Rightarrow> True
      | _ \<Rightarrow> False)"

text \<open>
  A monitor over a trace: every \<^verbatim>\<open>DeployTemplate\<close> call comes after a
  \<^verbatim>\<open>ValidateDeployment\<close> call, and the latest one before it returned no error. The flag
  says whether that holds at the start of the trace.
\<close>

fun deploy_after_valid :: "bool \<Rightarrow> event list \<Rightarrow> bool" where
  "deploy_after_valid ok [] = True"
| "deploy_after_valid ok (ValidateDeploymentCall g n r # es) = deploy_after_valid (r = None) es"
| "deploy_after_valid ok (DeployTemplateCall g n r # es) = (ok \<and> deploy_after_valid ok es)"
| "deploy_after_valid ok (e # es) = deploy_after_valid ok es"

text \<open>
  A state \<open>s'\<close> reached from \<open>s\<close> by calls whose events all satisfy \<open>P\<close>, and by
  allocation only: the maps that \<open>s\<close> holds are as they were.
\<close>

definition frame :: "(event \<Rightarrow> bool) \<Rightarrow> state \<Rightarrow> state \<Rightarrow> bool" where
  "frame P s s' \<longleftrightarrow>
     (\<exists>evs. trace s' = trace s @ evs \<and> list_all P evs) \<and>
     next_addr s \<le> next_addr s' \<and> (\<forall>a < next_addr s. heap s' a = heap s a)"

text \<open>
  One step of \<^verbatim>\<open>Up\<close>: \<^verbatim>\<open>err = stage(); if err != nil { return fmt.Errorf(ctx, err) }\<close>,
  followed by the rest \<open>k\<close> of the function.
\<close>

definition stage ::
  "string \<Rightarrow> result \<times> Cluster \<times> state \<Rightarrow> (Cluster \<Rightarrow> state \<Rightarrow> result \<times> state) \<Rightarrow> result \<times> state"
where
  "stage ctxt r k =
     (case r of
        (Error err, c, s) \<Rightarrow> (Error (ctxt @ err), s)
      | (Panic p, c, s) \<Rightarrow> (Panic p, s)
      | (Success, c, s) \<Rightarrow> k c s)"

subsection \<open>Example inputs\<close>

text \<open>
  Inputs for the examples: flags with both artifact URLs given and no download of the
  generator tool, a Cluster as \<^verbatim>\<open>newAcsEngine\<close> leaves it, a state with an empty trace and
  heap, and a world in which every call succeeds. \<open>join_slash\<close> joins path elements with
  a slash; \<open>parameters_doc\<close> is the document \<^verbatim>\<open>{"parameters":{}}\<close>.
\<close>

definition join_slash :: "string list \<Rightarrow> string" where
  "join_slash xs = (case xs of [] \<Rightarrow> [] | x # ys \<Rightarrow> foldl (\<lambda>a b. a @ ''/'' @ b) x ys)"

definition parameters_doc :: string where
  "parameters_doc = ''{'' @ [CHR 0x22] @ ''parameters'' @ [CHR 0x22] @ '':{}}''"

definition creds_ok :: Creds where
  "creds_ok = \<lparr>ClientID = ''client'', ClientSecret = ''secret'', TenantID = ''tenant'',
     SubscriptionID = ''subscription'', StorageAccountName = ''account'',
     StorageAccountKey = ''a2V5''\<rparr>"

definition cfg_ok :: flags where
  "cfg_ok = \<lparr>acsResourceName = ''kubetest-1'', acsResourceGroupName = ''kubetest-1-rg'',
     acsLocation = ''westus2'', acsMasterVmSize = ''Standard_D2s_v3'',
     acsAgentVmSize = ''Standard_D2s_v3'', acsAdminUsername = ''azureuser'',
     acsAdminPassword = ''P@ssw0rd1'', acsAgentPoolCount = 2, acsAgentOSType = ''Windows'',
     acsTemplatePath = '''', acsDnsPrefix = ''kubetest-1'', acsEngineURL = '''',
     acsEngineMD5 = '''', acsSSHPublicKeyPath = ''/root/.ssh/id_rsa.pub'',
     acsWinBinariesURL = ''https://account.blob.core.windows.net/bin/1.zip'',
     acsHyperKubeURL = ''registry/img:v9'', acsCredentialsFile = ''/root/creds.toml'',
     acsOrchestratorRelease = ''1.11'',
     acsWinZipBuildScript = ''https://example.org/build-windows-k8s.sh'',
     acsNetworkPlugin = ''azure''\<rparr>"

definition c_ok :: Cluster where
  "c_ok = \<lparr>ctx = (), credentials = creds_ok, location = ''westus2'',
     resourceGroup = ''kubetest-1-rg'', name = ''kubetest-1'', apiModelPath = '''',
     dnsPrefix = ''kubetest-1'', templateJSON = None, parametersJSON = None,
     outputDir = ''/root/acs1'', sshPublicKey = ''ssh-rsa AAAA'', adminUsername = '''',
     adminPassword = '''', masterVMSize = '''', agentVMSize = '''',
     acsCustomHyperKubeURL = '''', acsCustomWinBinariesURL = '''',
     acsEngineBinaryPath = ''acs-engine'', azureClient = 1\<rparr>"

definition s_ok :: state where
  "s_ok = \<lparr>trace = [], env = (\<lambda>k. if k = ''HOME'' then ''/root'' else if k = ''BUILD_NUMBER''
     then ''7'' else if k = ''REGISTRY'' then ''registry'' else ''''),
     heap = (\<lambda>a. None), next_addr = 0\<rparr>"

definition w_ok :: world where
  "w_ok = \<lparr>path_Join = join_slash, filepath_Base = (\<lambda>p. ''7.zip''),
     json_Unmarshal = (\<lambda>d. if d = parameters_doc then Inr (JObject [(''parameters'', JObject [])])
        else if d = ''{}'' then Inr (JObject []) else Inl ''unexpected end of JSON input''),
     json_MarshalIndent = (\<lambda>v. Inr ''{}''),
     toml_Unmarshal = (\<lambda>d. (creds_ok, None)),
     url_Parse = (\<lambda>u. Inr u),
     NewBlockBlobURL = (\<lambda>u b. u @ ''/'' @ b),
     NewSharedKeyCredential = (\<lambda>n k. None),
     ioutil_ReadFile = (\<lambda>t p. Inr parameters_doc),
     ioutil_WriteFile = (\<lambda>t p d. None),
     ioutil_ReadDir = (\<lambda>t p. Inr [''kubeconfig.westus2.json'']),
     ioutil_TempDir = (\<lambda>t d p. Inr ''/root/acs1''),
     os_Create = (\<lambda>t p. None),
     os_Open = (\<lambda>t p. None),
     os_Getwd = (\<lambda>t. Inr ''/go''),
     httpRead = (\<lambda>t u. None),
     control_FinishRunning = (\<lambda>t cmd. None),
     control_Output = (\<lambda>t cmd. Inr ''0cc175b9c0f1b6a831c399e269772661  /root/acs-engine.tar.gz''),
     uuid_NewV1 = (\<lambda>t. ''6ba7b810-9dad-11d1-80b4-00c04fd430c8''),
     time_Now = (\<lambda>t. ''2018-09-01 12:00:00 +0000 UTC''),
     getAzureClient = (\<lambda>t sub cl ten sec. Inr 1),
     EnsureResourceGroup = (\<lambda>t cl g l. None),
     ValidateDeployment = (\<lambda>t cl g n tj pj. None),
     DeployTemplate = (\<lambda>t cl g n tj pj. None),
     UploadFileToBlockBlob = (\<lambda>t p u. None)\<rparr>"

text \<open>A world whose cloud client rejects the template, and one without the kubeconfig directory.\<close>

definition w_invalid :: world where
  "w_invalid = w_ok\<lparr>ValidateDeployment := (\<lambda>t cl g n tj pj. Some ''InvalidTemplate'')\<rparr>"

definition w_nodir :: world where
  "w_nodir = w_ok\<lparr>ioutil_ReadDir := (\<lambda>t p. Inl ''open /root/acs1/kubeconfig: no such file or directory'')\<rparr>"

text \<open>
  Worlds in which the two ARM files hold the document \<^verbatim>\<open>{}\<close>, in which the
  credentials file cannot be read, in which it does not parse, and in which it cannot be
  read and \<open>getAzureClient\<close> refuses an empty client identity.
\<close>

definition w_noparams :: world where
  "w_noparams = w_ok\<lparr>ioutil_ReadFile := (\<lambda>t p. Inr ''{}'')\<rparr>"

definition w_nocreds :: world where
  "w_nocreds = w_ok\<lparr>ioutil_ReadFile := (\<lambda>t p. if p = ''/root/creds.toml''
     then Inl ''open /root/creds.toml: no such file or directory'' else Inr ''ssh-rsa AAAA'')\<rparr>"

definition w_badcreds :: world where
  "w_badcreds = w_ok\<lparr>ioutil_ReadFile := (\<lambda>t p. Inr ''ssh-rsa AAAA''),
     toml_Unmarshal := (\<lambda>d. (empty_Creds, Some ''(1, 1): unexpected token''))\<rparr>"

definition w_strict :: world where
  "w_strict = w_nocreds\<lparr>getAzureClient := (\<lambda>t sub cl ten sec.
     if cl = '''' then Inl ''parameter clientID cannot be empty'' else Inr 1)\<rparr>"

text \<open>
  For the download loop: the number of \<^verbatim>\<open>httpRead\<close> calls in a list of events, the
  durations of its sleeps, and the variable \<^verbatim>\<open>err\<close> after \<open>k\<close> failed attempts that
  started from \<open>err\<close>. \<open>w_down\<close> is a world in which every download fails.
\<close>

definition attempts :: "event list \<Rightarrow> nat" where
  "attempts evs = length (filter (\<lambda>e. case e of HttpRead _ _ \<Rightarrow> True | _ \<Rightarrow> False) evs)"

definition sleeps :: "event list \<Rightarrow> int list" where
  "sleeps evs = concat (map (\<lambda>e. case e of Sleep d \<Rightarrow> [d] | _ \<Rightarrow> []) evs)"

fun err_after :: "string \<Rightarrow> string \<Rightarrow> nat \<Rightarrow> error option \<Rightarrow> error option" where
  "err_after url downloadPath 0 err = err"
| "err_after url downloadPath (Suc k) err =
     err_after url downloadPath k (Some (download_error url downloadPath err))"

definition w_down :: world where
  "w_down = w_ok\<lparr>httpRead := (\<lambda>t u. Some ''connection refused'')\<rparr>"

text \<open>
  Flags that ask for the download of the generator tool: with a checksum that differs
  from the one \<^verbatim>\<open>md5sum\<close> prints in \<open>w_ok\<close>, and with no checksum.
\<close>

definition cfg_md5 :: flags where
  "cfg_md5 = cfg_ok\<lparr>acsEngineURL := ''https://example.org/acs-engine.tar.gz'',
     acsEngineMD5 := ''d41d8cd98f00b204e9800998ecf8427e''\<rparr>"

definition cfg_nomd5 :: flags where
  "cfg_nomd5 = cfg_ok\<lparr>acsEngineURL := ''https://example.org/acs-engine.tar.gz''\<rparr>"

text \<open>
  A caller whose Cluster refers to a template map made earlier, at address \<open>0\<close>.
\<close>

definition s_heap :: state where
  "s_heap = s_ok\<lparr>heap := (\<lambda>a. if a = 0 then Some [(''contentVersion'', JString ''1.0.0.0'')] else None),
     next_addr := 1\<rparr>"

definition p_ok :: program where
  "p_ok = \<lparr>cluster_obj = c_ok\<lparr>templateJSON := Some 0\<rparr>, st = s_heap\<rparr>"

text \<open>
  Flags that ask for the two builds, and worlds in which one kind of call fails: every
  command, every file creation, every write, every read, the resource group.
\<close>

definition cfg_build_hk :: flags where
  "cfg_build_hk = cfg_ok\<lparr>acsHyperKubeURL := ''''\<rparr>"

definition cfg_build_zip :: flags where
  "cfg_build_zip = cfg_ok\<lparr>acsWinBinariesURL := ''''\<rparr>"

definition w_script_fails :: world where
  "w_script_fails = w_ok\<lparr>control_FinishRunning := (\<lambda>t cmd. Some ''exit status 1'')\<rparr>"

definition w_readonly :: world where
  "w_readonly = w_ok\<lparr>os_Create := (\<lambda>t p. Some ''permission denied'')\<rparr>"

definition w_disk_full :: world where
  "w_disk_full = w_ok\<lparr>ioutil_WriteFile := (\<lambda>t p d. Some ''no space left on device'')\<rparr>"

definition w_nofiles :: world where
  "w_nofiles = w_ok\<lparr>ioutil_ReadFile := (\<lambda>t p. Inl ''no such file or directory'')\<rparr>"

definition w_denied :: world where
  "w_denied = w_ok\<lparr>EnsureResourceGroup := (\<lambda>t cl g l. Some ''AuthorizationFailed'')\<rparr>"

section \<open>Properties\<close>

subsection \<open>Traces and frames\<close>

lemma emit_simps [simp]:
  "trace (emit e s) = trace s @ [e]" "env (emit e s) = env s"
  "heap (emit e s) = heap s" "next_addr (emit e s) = next_addr s"
  by (simp_all add: emit_def)

lemma added_append: "trace s' = trace s @ xs \<Longrightarrow> added s s' = xs"
  by (simp add: added_def)

lemma frame_refl: "frame P s s"
  by (simp add: frame_def)

lemma frame_trans: "frame P s s1 \<Longrightarrow> frame P s1 s2 \<Longrightarrow> frame P s s2"
  unfolding frame_def by (elim conjE exE) (auto simp: list_all_iff)

lemma frame_emit: "frame P s s1 \<Longrightarrow> P e \<Longrightarrow> frame P s (emit e s1)"
  unfolding frame_def by auto

lemma frame_mono: "frame P s s' \<Longrightarrow> (\<And>e. P e \<Longrightarrow> Q e) \<Longrightarrow> frame Q s s'"
  unfolding frame_def by (auto simp: list_all_iff)

lemma frame_added: "frame P s s' \<Longrightarrow> trace s' = trace s @ added s s' \<and> list_all P (added s s')"
  unfolding frame_def by (auto simp: added_def)

lemma frame_Setenv:
  "frame P s s1 \<Longrightarrow> (\<And>r. P (Setenv k v r)) \<Longrightarrow> frame P s (snd (os_Setenv k v s1))"
  unfolding frame_def os_Setenv_def by auto

lemma frame_alloc: "frame P s s1 \<Longrightarrow> alloc m s1 = (a, s2) \<Longrightarrow> frame P s s2"
  unfolding frame_def alloc_def by auto

lemma download_loop_unfold:
  "download_loop w url p n i err s =
     (if i < n then
        (if httpRead w (trace s) url = None
         then (None, emit (HttpRead url (httpRead w (trace s) url)) s)
         else if i = n - 1
         then (Some (download_error url p err), emit (HttpRead url (httpRead w (trace s) url)) s)
         else download_loop w url p n (i + 1) (Some (download_error url p err))
                (emit (Sleep (seconds i)) (emit (HttpRead url (httpRead w (trace s) url)) s)))
      else (None, s))"
  by (subst download_loop.simps) (simp add: Let_def)

lemma download_loop_events:
  "download_loop w url p n i err s = (r, s') \<Longrightarrow>
     \<exists>evs. trace s' = trace s @ evs
        \<and> (\<forall>e\<in>set evs. (\<exists>x. e = HttpRead url x) \<or> (\<exists>d. e = Sleep d))
        \<and> (r \<noteq> None \<longrightarrow> HttpRead url None \<notin> set evs)
        \<and> (r = None \<and> i < n \<longrightarrow> HttpRead url None \<in> set evs)
        \<and> env s' = env s \<and> heap s' = heap s \<and> next_addr s' = next_addr s"
proof (induction w url p n i err s arbitrary: r s' rule: download_loop.induct)
  case (1 w url p n i err s)
  let ?x = "httpRead w (trace s) url"
  let ?s1 = "emit (HttpRead url ?x) s"
  let ?e1 = "download_error url p err"
  let ?s2 = "emit (Sleep (seconds i)) ?s1"
  note run = "1.prems"[unfolded download_loop_unfold[of w url p n i err s]]
  show ?case
  proof (cases "i < n")
    case False
    with run show ?thesis by simp
  next
    case True
    note lt = this
    show ?thesis
    proof (cases "?x = None")
      case True
      with lt run have "r = None" "s' = ?s1" by simp_all
      then show ?thesis using True lt by simp
    next
      case False
      note fail = this
      show ?thesis
      proof (cases "i = n - 1")
        case True
        with lt fail run have "s' = ?s1" "r \<noteq> None" by auto
        then show ?thesis using fail by auto
      next
        case False
        from run
        have rec: "download_loop w url p n (i + 1) (Some ?e1) ?s2 = (r, s')"
          by (simp only: lt fail False if_True if_False)
        from "1.IH"[OF lt refl refl fail refl False rec]
        obtain evs where evs: "trace s' = trace ?s2 @ evs"
          "\<forall>e\<in>set evs. (\<exists>x. e = HttpRead url x) \<or> (\<exists>d. e = Sleep d)"
          "r \<noteq> None \<longrightarrow> HttpRead url None \<notin> set evs"
          "r = None \<and> i + 1 < n \<longrightarrow> HttpRead url None \<in> set evs"
          "env s' = env ?s2" "heap s' = heap ?s2" "next_addr s' = next_addr ?s2"
          by blast
        have "i + 1 < n" using lt False by simp
        with evs fail show ?thesis
          by (intro exI[of _ "HttpRead url ?x # Sleep (seconds i) # evs"]) auto
      qed
    qed
  qed
qed

lemma download_loop_frame:
  assumes "download_loop w url p n i err s1 = (r, s2)" and "frame P s s1"
    and "\<And>x u. P (HttpRead u x)" and "\<And>d. P (Sleep d)"
  shows "frame P s s2"
proof -
  from download_loop_events[OF assms(1)] obtain evs where
    "trace s2 = trace s1 @ evs" "\<forall>e\<in>set evs. (\<exists>x. e = HttpRead url x) \<or> (\<exists>d. e = Sleep d)"
    "heap s2 = heap s1" "next_addr s2 = next_addr s1" by blast
  then have "frame P s1 s2" using assms(3,4) by (auto simp: frame_def list_all_iff)
  with assms(2) show ?thesis by (rule frame_trans)
qed

lemma getZipBuildScript_frame:
  assumes "getZipBuildScript w url n s1 = (r, s2)" and "frame P s s1"
    and ok: "\<And>e. \<not> buildHyperKube_event e \<Longrightarrow> P e"
  shows "frame P s s2"
proof -
  let ?p = "path_Join w [env s1 ''HOME'', ''build-win-zip.sh'']"
  let ?cr = "os_Create w (trace s1) ?p"
  let ?s1 = "emit (Create ?p ?cr) s1"
  have P: "\<And>x u. P (HttpRead u x)" "\<And>d. P (Sleep d)" "\<And>p. P (Close p)" "\<And>p. P (Chmod p)"
    "\<And>p x. P (Create p x)"
    by (simp_all add: ok buildHyperKube_event_def)
  have f1: "frame P s ?s1" using assms(2) P by (intro frame_emit)
  show ?thesis
  proof (cases ?cr)
    case (Some e)
    with assms(1) have "s2 = ?s1" by (simp add: getZipBuildScript_def Let_def)
    with f1 show ?thesis by simp
  next
    case None
    obtain x s3 where loop: "download_loop w url ?p n 0 None ?s1 = (x, s3)" by force
    have f3: "frame P s s3" by (rule download_loop_frame[OF loop f1 P(1,2)])
    from assms(1) None loop have "s2 = emit (Close ?p) s3 \<or> s2 = emit (Close ?p) (emit (Chmod ?p) s3)"
      by (cases x) (auto simp add: getZipBuildScript_def Let_def)
    with f3 P show ?thesis by (auto intro!: frame_emit)
  qed
qed

lemma nohk_events:
  assumes ok: "\<And>e. \<not> buildHyperKube_event e \<Longrightarrow> P e"
  shows "P (ReadFile a x)" "P (WriteFile a b x)" "P (ReadDir a x)" "P (TempDir a b x)"
    "P (Create a x)" "P (Open_file a x)" "P (Close a)" "P (Chmod a)" "P (Getwd x)"
    "P (HttpRead a x)" "P (Sleep d)" "P (Output cmd y)" "P NewV1" "P Now" "P (GetAzureClient x)"
    "P (EnsureResourceGroupCall a b x)" "P (ValidateDeploymentCall a b x)"
    "P (DeployTemplateCall a b x)" "P (UploadFileToBlockBlobCall a b x)"
    "k \<noteq> ''VERSION'' \<Longrightarrow> P (Setenv k v x)"
    "cmd \<noteq> [''hack/dev-push-hyperkube.sh''] \<Longrightarrow> P (FinishRunning cmd x)"
  by (simp_all add: ok buildHyperKube_event_def)

lemma uploadZip_frame:
  assumes "uploadZip w zp c s1 = (r, c', s2)" and "frame P s s1"
    and ok: "\<And>e. \<not> buildHyperKube_event e \<Longrightarrow> P e"
  shows "frame P s s2"
  using assms(1,2) unfolding uploadZip_def Let_def
  by (auto split: option.splits sum.splits intro!: frame_emit nohk_events[where P = P, OF ok])

lemma buildWinZip_frame:
  assumes "buildWinZip cfg w c s1 = (r, c', s2)" and "frame P s s1"
    and ok: "\<And>e. \<not> buildHyperKube_event e \<Longrightarrow> P e"
  shows "frame P s s2"
proof -
  obtain x s3 where g: "getZipBuildScript w (acsWinZipBuildScript cfg) 2 s1 = (x, s3)" by force
  have f3: "frame P s s3" by (rule getZipBuildScript_frame[OF g assms(2) ok])
  show ?thesis
  proof (cases x)
    case (Inl e)
    with assms(1) g have "s2 = s3" by (simp add: buildWinZip_def Let_def)
    with f3 show ?thesis by simp
  next
    case (Inr bsp)
    let ?cmd = "[bsp, ''-u'', env s1 ''BUILD_NUMBER'' @ ''.zip'', ''-z'', path_Join w [env s1 ''HOME'', ''winbuild'']]"
    let ?r = "control_FinishRunning w (trace s3) ?cmd"
    let ?s4 = "emit (FinishRunning ?cmd ?r) s3"
    have f4: "frame P s ?s4" using f3 by (intro frame_emit nohk_events[where P = P, OF ok]) simp_all
    show ?thesis
    proof (cases ?r)
      case (Some e)
      with assms(1) g Inr have "s2 = ?s4" by (simp add: buildWinZip_def Let_def)
      with f4 show ?thesis by simp
    next
      case None
      with assms(1) g Inr
      have "uploadZip w (path_Join w [env s1 ''HOME'', env s1 ''BUILD_NUMBER'' @ ''.zip'']) c ?s4 = (r, c', s2)"
        by (simp add: buildWinZip_def Let_def)
      from uploadZip_frame[OF this f4 ok] show ?thesis .
    qed
  qed
qed

lemma generateTemplate_frame:
  assumes "generateTemplate cfg w c s1 = (r, c', s2)" and "frame P s s1"
    and ok: "\<And>e. \<not> buildHyperKube_event e \<Longrightarrow> P e"
  shows "frame P s s2"
  using assms(1,2) unfolding generateTemplate_def Let_def
  by (auto split: option.splits sum.splits intro!: frame_emit nohk_events[where P = P, OF ok])

lemma generateARMTemplates_frame:
  assumes "generateARMTemplates w c s1 = (r, s2)" and "frame P s s1"
    and ok: "\<And>e. \<not> buildHyperKube_event e \<Longrightarrow> P e"
  shows "frame P s s2"
  using assms(1,2) unfolding generateARMTemplates_def Let_def
  by (auto split: option.splits sum.splits intro!: frame_emit nohk_events[where P = P, OF ok])

lemma createCluster_frame:
  assumes "createCluster w c s1 = (r, c', s2)" and "frame P s s1"
    and ok: "\<And>e. \<not> buildHyperKube_event e \<Longrightarrow> P e"
  shows "frame P s s2"
  using assms(1,2) unfolding createCluster_def Let_def
  by (auto split: option.splits sum.splits list.splits
        intro!: frame_emit frame_Setenv nohk_events[where P = P, OF ok])

lemma buildHyperKube_frame:
  assumes "buildHyperKube w c s1 = (r, c', s2)" and "frame (\<lambda>_. True) s s1"
  shows "frame (\<lambda>_. True) s s2"
  using assms(1,2) unfolding buildHyperKube_def Let_def
  by (auto split: option.splits sum.splits intro!: frame_emit frame_Setenv)

lemma getAcsEngine_body_frame:
  assumes "getAcsEngine_body cfg w p n c s1 = (r, c', s2)" and "frame P s s1"
    and ok: "\<And>e. \<not> buildHyperKube_event e \<Longrightarrow> P e"
  shows "frame P s s2"
proof -
  note ev = nohk_events[where P = P, OF ok]
  obtain x s3 where loop: "download_loop w (acsEngineURL cfg) p n 0 None s1 = (x, s3)" by force
  have f3: "frame P s s3" by (rule download_loop_frame[OF loop assms(2) ev(10,11)])
  from assms(1) f3 show ?thesis unfolding getAcsEngine_body_def loop Let_def
    by (auto split: option.splits sum.splits if_splits prod.splits
          intro!: frame_emit ev)
qed

lemma getAcsEngine_frame:
  assumes "getAcsEngine cfg w n c s1 = (r, c', s2)" and "frame P s s1"
    and ok: "\<And>e. \<not> buildHyperKube_event e \<Longrightarrow> P e"
  shows "frame P s s2"
proof -
  note ev = nohk_events[where P = P, OF ok]
  let ?p = "path_Join w [env s1 ''HOME'', ''acs-engine.tar.gz'']"
  let ?cr = "os_Create w (trace s1) ?p"
  let ?s1 = "emit (Create ?p ?cr) s1"
  have f1: "frame P s ?s1" using assms(2) by (intro frame_emit ev)
  show ?thesis
  proof (cases ?cr)
    case (Some e)
    with assms(1) have "s2 = ?s1" by (simp add: getAcsEngine_def Let_def)
    with f1 show ?thesis by simp
  next
    case None
    obtain r1 c1 s3 where b: "getAcsEngine_body cfg w ?p n c ?s1 = (r1, c1, s3)"
      by (metis prod_cases3)
    from assms(1) None b have "s2 = emit (Close ?p) s3" by (simp add: getAcsEngine_def Let_def)
    with getAcsEngine_body_frame[OF b f1 ok] show ?thesis by (auto intro!: frame_emit ev)
  qed
qed

lemma frame_alloc_addr: "frame P s s1 \<Longrightarrow> alloc m s1 = (a, s2) \<Longrightarrow> next_addr s \<le> a"
  unfolding frame_def alloc_def by auto

lemma json_Unmarshal_map_frame:
  assumes "json_Unmarshal_map w d m s1 = (e, m', s2)" and "frame P s s1"
    and "\<And>a. m = Some a \<Longrightarrow> next_addr s \<le> a"
  shows "frame P s s2"
  using assms unfolding json_Unmarshal_map_def frame_def alloc_def
  by (auto split: sum.splits json.splits option.splits)

lemma unwrap_parameters_frame:
  assumes "unwrap_parameters c s1 = (r, c', s2)" and "frame P s s1"
  shows "frame P s s2"
  using assms unfolding unwrap_parameters_def
  by (auto split: option.splits json.splits prod.splits intro: frame_alloc)

lemma loadARMTemplates_frame:
  assumes "loadARMTemplates w c s1 = (r, c', s2)" and "frame P s s1"
    and ok: "\<And>e. \<not> buildHyperKube_event e \<Longrightarrow> P e"
  shows "frame P s s2"
proof -
  note ev = nohk_events[where P = P, OF ok]
  let ?tp = "path_Join w [outputDir c, ''azuredeploy.json'']"
  let ?rt = "ioutil_ReadFile w (trace s1) ?tp"
  let ?s1 = "emit (ReadFile ?tp (err_of ?rt)) s1"
  have f1: "frame P s ?s1" using assms(2) by (intro frame_emit ev)
  show ?thesis
  proof (cases ?rt)
    case (Inl e)
    with assms(1) have "s2 = ?s1" by (auto simp add: loadARMTemplates_def Let_def)
    with f1 show ?thesis by simp
  next
    case (Inr template)
    obtain a sa where al: "alloc [] ?s1 = (a, sa)" by force
    have fa: "frame P s sa" "next_addr s \<le> a"
      using frame_alloc[OF f1 al] frame_alloc_addr[OF f1 al] by simp_all
    obtain e m s3 where um: "json_Unmarshal_map w template (Some a) sa = (e, m, s3)"
      by (metis prod_cases3)
    have f3: "frame P s s3" by (rule json_Unmarshal_map_frame[OF um fa(1)]) (use fa(2) in simp)
    show ?thesis
    proof (cases e)
      case (Some err)
      with assms(1) Inr al um have "s2 = s3" by (auto simp add: loadARMTemplates_def Let_def)
      with f3 show ?thesis by simp
    next
      case None
      let ?pp = "path_Join w [outputDir c, ''azuredeploy.parameters.json'']"
      let ?rp = "ioutil_ReadFile w (trace s3) ?pp"
      let ?s4 = "emit (ReadFile ?pp (err_of ?rp)) s3"
      have f4: "frame P s ?s4" using f3 by (intro frame_emit ev)
      show ?thesis
      proof (cases ?rp)
        case (Inl e)
        with assms(1) Inr al um None have "s2 = ?s4" by (auto simp add: loadARMTemplates_def Let_def)
        with f4 show ?thesis by simp
      next
        case (Inr parameters)
        note rp = this
        obtain b sb where bl: "alloc [] ?s4 = (b, sb)" by force
        have fb: "frame P s sb" "next_addr s \<le> b"
          using frame_alloc[OF f4 bl] frame_alloc_addr[OF f4 bl] by simp_all
        obtain e' m' s6 where um': "json_Unmarshal_map w parameters (Some b) sb = (e', m', s6)"
          by (metis prod_cases3)
        have f6: "frame P s s6" by (rule json_Unmarshal_map_frame[OF um' fb(1)]) (use fb(2) in simp)
        show ?thesis
        proof (cases e')
          case (Some err)
          with assms(1) \<open>?rt = Inr template\<close> al um None rp bl um' have "s2 = s6"
            by (auto simp add: loadARMTemplates_def Let_def)
          with f6 show ?thesis by simp
        next
          case None
          with assms(1) \<open>?rt = Inr template\<close> al um \<open>e = None\<close> rp bl um'
          have "unwrap_parameters (c\<lparr>templateJSON := m, parametersJSON := m'\<rparr>) s6 = (r, c', s2)"
            by (auto simp add: loadARMTemplates_def Let_def)
          from unwrap_parameters_frame[OF this f6] show ?thesis .
        qed
      qed
    qed
  qed
qed

lemma stage_pair:
  "stage ctxt (case g of (x, s5) \<Rightarrow> (x, c4, s5)) k =
     (case g of
        (Error err, s5) \<Rightarrow> (Error (ctxt @ err), s5)
      | (Panic p, s5) \<Rightarrow> (Panic p, s5)
      | (Success, s5) \<Rightarrow> k c4 s5)"
  by (cases g) (simp add: stage_def split: result.splits)

lemma Up_stage_form:
  "Up cfg w c s =
     stage ''Problem building hyperkube ''
       (if acsHyperKubeURL cfg = '''' then buildHyperKube w c s else (Success, c, s))
       (\<lambda>c1 s1. stage ''Problem building windowsZipFile ''
          (if acsWinBinariesURL cfg = '''' then buildWinZip cfg w c1 s1 else (Success, c1, s1))
          (\<lambda>c2 s2. stage ''Failed to generate apiModel: ''
             (if apiModelPath c2 = '''' then generateTemplate cfg w c2 s2 else (Success, c2, s2))
             (\<lambda>c3 s3. stage ''Failed to get ACS Engine binary: ''
                (if acsEngineURL cfg \<noteq> '''' then getAcsEngine cfg w 2 c3 s3 else (Success, c3, s3))
                (\<lambda>c4 s4. stage ''Failed to generate ARM templates: ''
                   (case generateARMTemplates w c4 s4 of (x, s5) \<Rightarrow> (x, c4, s5))
                   (\<lambda>c5 s5. stage ''Error loading ARM templates: '' (loadARMTemplates w c5 s5)
                      (\<lambda>c6 s6. stage ''Error creating cluster: '' (createCluster w c6 s6)
                         (\<lambda>c7 s7. (Success, s7))))))))"
  by (simp only: Up_def stage_pair) (simp only: stage_def)

lemma stage_frame:
  assumes run: "stage ctxt r k = (res, s')"
    and fr: "\<And>x c1 s1. r = (x, c1, s1) \<Longrightarrow> frame P s s1"
    and fk: "\<And>c1 s1. r = (Success, c1, s1) \<Longrightarrow> frame P s s1 \<Longrightarrow> k c1 s1 = (res, s') \<Longrightarrow> frame P s s'"
  shows "frame P s s'"
proof -
  obtain x c1 s1 where r: "r = (x, c1, s1)" by (metis prod_cases3)
  show ?thesis
  proof (cases x)
    case Success
    with run r have "k c1 s1 = (res, s')" by (simp add: stage_def)
    with fk[OF r[unfolded Success] fr[OF r]] r Success show ?thesis by simp
  next
    case (Error e)
    with run r have "s' = s1" by (simp add: stage_def)
    with fr[OF r] show ?thesis by simp
  next
    case (Panic p)
    with run r have "s' = s1" by (simp add: stage_def)
    with fr[OF r] show ?thesis by simp
  qed
qed

lemma guard_frame:
  assumes "(if b then f else (Success, c0, s0)) = (x, c1, s1)" and "frame P s s0"
    and "\<And>x c1 s1. f = (x, c1, s1) \<Longrightarrow> frame P s s1"
  shows "frame P s s1"
  using assms by (cases b) simp_all

lemma Up_frame:
  assumes up: "Up cfg w c s = (r, s')"
    and first: "\<And>x c1 s1. (if acsHyperKubeURL cfg = '''' then buildHyperKube w c s else (Success, c, s))
                  = (x, c1, s1) \<Longrightarrow> frame P s s1"
    and ok: "\<And>e. \<not> buildHyperKube_event e \<Longrightarrow> P e"
  shows "frame P s s'"
proof (rule stage_frame[OF up[unfolded Up_stage_form]])
  fix x c1 s1
  assume "(if acsHyperKubeURL cfg = '''' then buildHyperKube w c s else (Success, c, s)) = (x, c1, s1)"
  then show "frame P s s1" by (rule first)
next
  fix c1 s1 assume f1: "frame P s s1"
  assume "stage ''Problem building windowsZipFile ''
          (if acsWinBinariesURL cfg = '''' then buildWinZip cfg w c1 s1 else (Success, c1, s1))
          (\<lambda>c2 s2. stage ''Failed to generate apiModel: ''
             (if apiModelPath c2 = '''' then generateTemplate cfg w c2 s2 else (Success, c2, s2))
             (\<lambda>c3 s3. stage ''Failed to get ACS Engine binary: ''
                (if acsEngineURL cfg \<noteq> '''' then getAcsEngine cfg w 2 c3 s3 else (Success, c3, s3))
                (\<lambda>c4 s4. stage ''Failed to generate ARM templates: ''
                   (case generateARMTemplates w c4 s4 of (x, s5) \<Rightarrow> (x, c4, s5))
                   (\<lambda>c5 s5. stage ''Error loading ARM templates: '' (loadARMTemplates w c5 s5)
                      (\<lambda>c6 s6. stage ''Error creating cluster: '' (createCluster w c6 s6)
                         (\<lambda>c7 s7. (Success, s7))))))) = (r, s')"
  then show "frame P s s'"
  proof (rule stage_frame)
    fix x c2 s2
    assume "(if acsWinBinariesURL cfg = '''' then buildWinZip cfg w c1 s1 else (Success, c1, s1)) = (x, c2, s2)"
    then show "frame P s s2"
      by (rule guard_frame[OF _ f1]) (rule buildWinZip_frame[OF _ f1 ok])
  next
    fix c2 s2 assume f2: "frame P s s2"
    assume "stage ''Failed to generate apiModel: ''
             (if apiModelPath c2 = '''' then generateTemplate cfg w c2 s2 else (Success, c2, s2))
             (\<lambda>c3 s3. stage ''Failed to get ACS Engine binary: ''
                (if acsEngineURL cfg \<noteq> '''' then getAcsEngine cfg w 2 c3 s3 else (Success, c3, s3))
                (\<lambda>c4 s4. stage ''Failed to generate ARM templates: ''
                   (case generateARMTemplates w c4 s4 of (x, s5) \<Rightarrow> (x, c4, s5))
                   (\<lambda>c5 s5. stage ''Error loading ARM templates: '' (loadARMTemplates w c5 s5)
                      (\<lambda>c6 s6. stage ''Error creating cluster: '' (createCluster w c6 s6)
                         (\<lambda>c7 s7. (Success, s7)))))) = (r, s')"
    then show "frame P s s'"
    proof (rule stage_frame)
      fix x c3 s3
      assume "(if apiModelPath c2 = '''' then generateTemplate cfg w c2 s2 else (Success, c2, s2)) = (x, c3, s3)"
      then show "frame P s s3"
        by (rule guard_frame[OF _ f2]) (rule generateTemplate_frame[OF _ f2 ok])
    next
      fix c3 s3 assume f3: "frame P s s3"
      assume "stage ''Failed to get ACS Engine binary: ''
                (if acsEngineURL cfg \<noteq> '''' then getAcsEngine cfg w 2 c3 s3 else (Success, c3, s3))
                (\<lambda>c4 s4. stage ''Failed to generate ARM templates: ''
                   (case generateARMTemplates w c4 s4 of (x, s5) \<Rightarrow> (x, c4, s5))
                   (\<lambda>c5 s5. stage ''Error loading ARM templates: '' (loadARMTemplates w c5 s5)
                      (\<lambda>c6 s6. stage ''Error creating cluster: '' (createCluster w c6 s6)
                         (\<lambda>c7 s7. (Success, s7))))) = (r, s')"
      then show "frame P s s'"
      proof (rule stage_frame)
        fix x c4 s4
        assume "(if acsEngineURL cfg \<noteq> '''' then getAcsEngine cfg w 2 c3 s3 else (Success, c3, s3)) = (x, c4, s4)"
        then show "frame P s s4"
          by (rule guard_frame[OF _ f3]) (rule getAcsEngine_frame[OF _ f3 ok])
      next
        fix c4 s4 assume f4: "frame P s s4"
        assume "stage ''Failed to generate ARM templates: ''
                   (case generateARMTemplates w c4 s4 of (x, s5) \<Rightarrow> (x, c4, s5))
                   (\<lambda>c5 s5. stage ''Error loading ARM templates: '' (loadARMTemplates w c5 s5)
                      (\<lambda>c6 s6. stage ''Error creating cluster: '' (createCluster w c6 s6)
                         (\<lambda>c7 s7. (Success, s7)))) = (r, s')"
        then show "frame P s s'"
        proof (rule stage_frame)
          fix x c5 s5
          assume "(case generateARMTemplates w c4 s4 of (x, s5) \<Rightarrow> (x, c4, s5)) = (x, c5, s5)"
          then have "generateARMTemplates w c4 s4 = (x, s5)" by (simp split: prod.splits)
          then show "frame P s s5" by (rule generateARMTemplates_frame[OF _ f4 ok])
        next
          fix c5 s5 assume f5: "frame P s s5"
          assume "stage ''Error loading ARM templates: '' (loadARMTemplates w c5 s5)
                      (\<lambda>c6 s6. stage ''Error creating cluster: '' (createCluster w c6 s6)
                         (\<lambda>c7 s7. (Success, s7))) = (r, s')"
          then show "frame P s s'"
          proof (rule stage_frame)
            fix x c6 s6 assume "loadARMTemplates w c5 s5 = (x, c6, s6)"
            then show "frame P s s6" by (rule loadARMTemplates_frame[OF _ f5 ok])
          next
            fix c6 s6 assume f6: "frame P s s6"
            assume "stage ''Error creating cluster: '' (createCluster w c6 s6)
                         (\<lambda>c7 s7. (Success, s7)) = (r, s')"
            then show "frame P s s'"
            proof (rule stage_frame)
              fix x c7 s7 assume "createCluster w c6 s6 = (x, c7, s7)"
              then show "frame P s s7" by (rule createCluster_frame[OF _ f6 ok])
            next
              fix c7 :: Cluster and s7 assume "frame P s s7" "(Success, s7) = (r, s')"
              then show "frame P s s'" by simp
            qed
          qed
        qed
      qed
    qed
  qed
qed

subsection \<open>The override of the hyperkube image\<close>

text \<open>
  C1. When the flag \<^verbatim>\<open>acsengine-hyperkube-url\<close> is not empty, the ClusterSpec that
  \<^verbatim>\<open>generateTemplate\<close> serialises has that value as its custom hyperkube image, whatever
  \<^verbatim>\<open>acsCustomHyperKubeURL\<close> the Cluster holds; what \<^verbatim>\<open>generateTemplate\<close> does is to
  read the clock and to write the serialised ClusterSpec to \<^verbatim>\<open>kubernetes.json\<close> in the
  output directory; and the calls of a run of \<^verbatim>\<open>Up\<close> include none of the calls of
  \<^verbatim>\<open>buildHyperKube\<close>.
\<close>

theorem hyperkube_override:
  assumes "acsHyperKubeURL cfg \<noteq> ''''"
  shows "CustomHyperkubeImage (KubernetesConfig (OrchestratorProfile (Properties
           (apiModel_v cfg c now)))) = acsHyperKubeURL cfg
       \<and> added s (snd (snd (generateTemplate cfg w c s))) =
           [Now,
            WriteFile (path_Join w [outputDir c, ''kubernetes.json''])
              (case json_MarshalIndent w (apiModel_v cfg c (time_Now w (trace s))) of
                 Inl _ \<Rightarrow> '''' | Inr b \<Rightarrow> b)
              (ioutil_WriteFile w (trace s @ [Now]) (path_Join w [outputDir c, ''kubernetes.json''])
                 (case json_MarshalIndent w (apiModel_v cfg c (time_Now w (trace s))) of
                    Inl _ \<Rightarrow> '''' | Inr b \<Rightarrow> b))]
       \<and> trace (snd (Up cfg w c s)) = trace s @ added s (snd (Up cfg w c s))
       \<and> list_all (\<lambda>e. \<not> buildHyperKube_event e) (added s (snd (Up cfg w c s)))"
proof -
  have a: "CustomHyperkubeImage (KubernetesConfig (OrchestratorProfile (Properties
           (apiModel_v cfg c now)))) = acsHyperKubeURL cfg"
    using assms by (simp add: apiModel_v_def)
  have b: "added s (snd (snd (generateTemplate cfg w c s))) =
           [Now,
            WriteFile (path_Join w [outputDir c, ''kubernetes.json''])
              (case json_MarshalIndent w (apiModel_v cfg c (time_Now w (trace s))) of
                 Inl _ \<Rightarrow> '''' | Inr b \<Rightarrow> b)
              (ioutil_WriteFile w (trace s @ [Now]) (path_Join w [outputDir c, ''kubernetes.json''])
                 (case json_MarshalIndent w (apiModel_v cfg c (time_Now w (trace s))) of
                    Inl _ \<Rightarrow> '''' | Inr b \<Rightarrow> b))]"
    by (simp add: generateTemplate_def Let_def added_def split: option.splits)
  obtain r s' where up: "Up cfg w c s = (r, s')" by force
  have "frame (\<lambda>e. \<not> buildHyperKube_event e) s s'"
    by (rule Up_frame[OF up]) (use assms in \<open>simp_all add: frame_refl\<close>)
  from frame_added[OF this] up a b show ?thesis by simp
qed

text \<open>An example for C1: the flag wins over a URL recorded on the Cluster.\<close>

theorem hyperkube_override_witness:
  "acsHyperKubeURL cfg_ok \<noteq> ''''
   \<and> CustomHyperkubeImage (KubernetesConfig (OrchestratorProfile (Properties
        (apiModel_v cfg_ok (c_ok\<lparr>acsCustomHyperKubeURL := ''registry/hyperkube-amd64:7''\<rparr>)
           ''2018-09-01 12:00:00 +0000 UTC'')))) = ''registry/img:v9''
   \<and> list_all (\<lambda>e. \<not> buildHyperKube_event e) (added s_ok (snd (Up cfg_ok w_ok c_ok s_ok)))"
proof -
  have h: "acsHyperKubeURL cfg_ok \<noteq> ''''" by (simp add: cfg_ok_def)
  from hyperkube_override[OF h, of "c_ok\<lparr>acsCustomHyperKubeURL := ''registry/hyperkube-amd64:7''\<rparr>"
      "''2018-09-01 12:00:00 +0000 UTC''"]
    hyperkube_override[OF h, of c_ok _ s_ok w_ok] h
  show ?thesis by (simp add: cfg_ok_def)
qed

subsection \<open>Creating the cluster: the order of the calls\<close>

lemma added_emit [simp]:
  "length (trace s) \<le> length (trace s1) \<Longrightarrow> added s (emit e s1) = added s s1 @ [e]"
  by (simp add: added_def)

lemma added_self [simp]: "added s s = []"
  by (simp add: added_def)

lemma os_Setenv_state:
  "snd (os_Setenv k v s) =
     emit (Setenv k v (if setenv_invalid k v then Some ''setenv: invalid argument'' else None))
       (if setenv_invalid k v then s else s\<lparr>env := (env s)(k := v)\<rparr>)"
  by (simp add: os_Setenv_def)

text \<open>The five ways through \<^verbatim>\<open>createCluster\<close>, each with its result and its calls.\<close>

lemma createCluster_cases [consumes 1, case_names panic ensure invalid deploy ok]:
  assumes run: "createCluster w c s = (r, c', s')"
  obtains
    (panic) "(case ioutil_ReadDir w (trace s) (path_Join w [outputDir c, ''kubeconfig'']) of
                Inl _ \<Rightarrow> [] | Inr l \<Rightarrow> l) = []"
      "r = Panic ''runtime error: index out of range''"
      "added s s' = [ReadDir (path_Join w [outputDir c, ''kubeconfig''])
                       (err_of (ioutil_ReadDir w (trace s) (path_Join w [outputDir c, ''kubeconfig''])))]"
  | (ensure) entry rest x e where
      "ioutil_ReadDir w (trace s) (path_Join w [outputDir c, ''kubeconfig'']) = Inr (entry # rest)"
      "x = (if setenv_invalid ''KUBECONFIG'' (path_Join w [outputDir c, ''kubeconfig'', entry])
            then Some ''setenv: invalid argument'' else None)"
      "x = None \<longrightarrow> env s' ''KUBECONFIG'' = path_Join w [outputDir c, ''kubeconfig'', entry]"
      "r = Error (''Could not ensure resource group: '' @ e)"
      "added s s' = [ReadDir (path_Join w [outputDir c, ''kubeconfig'']) None,
                     Setenv ''KUBECONFIG'' (path_Join w [outputDir c, ''kubeconfig'', entry]) x,
                     EnsureResourceGroupCall (resourceGroup c) (location c) (Some e)]"
  | (invalid) entry rest x e where
      "ioutil_ReadDir w (trace s) (path_Join w [outputDir c, ''kubeconfig'']) = Inr (entry # rest)"
      "x = (if setenv_invalid ''KUBECONFIG'' (path_Join w [outputDir c, ''kubeconfig'', entry])
            then Some ''setenv: invalid argument'' else None)"
      "x = None \<longrightarrow> env s' ''KUBECONFIG'' = path_Join w [outputDir c, ''kubeconfig'', entry]"
      "r = Error (''Template invalid: '' @ e)"
      "added s s' = [ReadDir (path_Join w [outputDir c, ''kubeconfig'']) None,
                     Setenv ''KUBECONFIG'' (path_Join w [outputDir c, ''kubeconfig'', entry]) x,
                     EnsureResourceGroupCall (resourceGroup c) (location c) None,
                     ValidateDeploymentCall (resourceGroup c) (name c) (Some e)]"
  | (deploy) entry rest x e where
      "ioutil_ReadDir w (trace s) (path_Join w [outputDir c, ''kubeconfig'']) = Inr (entry # rest)"
      "x = (if setenv_invalid ''KUBECONFIG'' (path_Join w [outputDir c, ''kubeconfig'', entry])
            then Some ''setenv: invalid argument'' else None)"
      "x = None \<longrightarrow> env s' ''KUBECONFIG'' = path_Join w [outputDir c, ''kubeconfig'', entry]"
      "r = Error (''Cannot deploy: '' @ e)"
      "added s s' = [ReadDir (path_Join w [outputDir c, ''kubeconfig'']) None,
                     Setenv ''KUBECONFIG'' (path_Join w [outputDir c, ''kubeconfig'', entry]) x,
                     EnsureResourceGroupCall (resourceGroup c) (location c) None,
                     ValidateDeploymentCall (resourceGroup c) (name c) None,
                     DeployTemplateCall (resourceGroup c) (name c) (Some e)]"
  | (ok) entry rest x where
      "ioutil_ReadDir w (trace s) (path_Join w [outputDir c, ''kubeconfig'']) = Inr (entry # rest)"
      "x = (if setenv_invalid ''KUBECONFIG'' (path_Join w [outputDir c, ''kubeconfig'', entry])
            then Some ''setenv: invalid argument'' else None)"
      "x = None \<longrightarrow> env s' ''KUBECONFIG'' = path_Join w [outputDir c, ''kubeconfig'', entry]"
      "r = Success"
      "added s s' = [ReadDir (path_Join w [outputDir c, ''kubeconfig'']) None,
                     Setenv ''KUBECONFIG'' (path_Join w [outputDir c, ''kubeconfig'', entry]) x,
                     EnsureResourceGroupCall (resourceGroup c) (location c) None,
                     ValidateDeploymentCall (resourceGroup c) (name c) None,
                     DeployTemplateCall (resourceGroup c) (name c) None]"
proof -
  let ?dir = "path_Join w [outputDir c, ''kubeconfig'']"
  let ?rd = "ioutil_ReadDir w (trace s) ?dir"
  let ?s1 = "emit (ReadDir ?dir (err_of ?rd)) s"
  show thesis
  proof (cases "case ?rd of Inl _ \<Rightarrow> [] | Inr l \<Rightarrow> l")
    case Nil
    with run have "r = Panic ''runtime error: index out of range''" "s' = ?s1"
      by (auto simp add: createCluster_def Let_def)
    with Nil show thesis by (intro panic) simp_all
  next
    case (Cons entry rest)
    then have rd: "?rd = Inr (entry # rest)" by (simp split: sum.splits)
    let ?kc = "path_Join w [outputDir c, ''kubeconfig'', entry]"
    let ?x = "if setenv_invalid ''KUBECONFIG'' ?kc then Some ''setenv: invalid argument'' else None"
    let ?s2 = "snd (os_Setenv ''KUBECONFIG'' ?kc ?s1)"
    have s2: "trace ?s2 = trace s @ [ReadDir ?dir None, Setenv ''KUBECONFIG'' ?kc ?x]"
      "?x = None \<longrightarrow> env ?s2 ''KUBECONFIG'' = ?kc"
      by (simp_all add: os_Setenv_state rd err_of_def)
    let ?e = "EnsureResourceGroup w (trace ?s2) (azureClient c) (resourceGroup c) (location c)"
    let ?s3 = "emit (EnsureResourceGroupCall (resourceGroup c) (location c) ?e) ?s2"
    show thesis
    proof (cases ?e)
      case (Some e)
      with run rd have "r = Error (''Could not ensure resource group: '' @ e)" "s' = ?s3"
        by (auto simp add: createCluster_def Let_def)
      with s2 Some show thesis by (intro ensure[OF rd refl]) (simp_all add: added_def)
    next
      case None
      note en = this
      let ?v = "ValidateDeployment w (trace ?s3) (azureClient c) (resourceGroup c) (name c)
                  (deref ?s3 (templateJSON c)) (deref ?s3 (parametersJSON c))"
      let ?s4 = "emit (ValidateDeploymentCall (resourceGroup c) (name c) ?v) ?s3"
      show thesis
      proof (cases ?v)
        case (Some e)
        with run rd en have "r = Error (''Template invalid: '' @ e)" "s' = ?s4"
          by (auto simp add: createCluster_def Let_def)
        with s2 en Some show thesis by (intro invalid[OF rd refl]) (simp_all add: added_def)
      next
        case None
        note va = this
        let ?d = "DeployTemplate w (trace ?s4) (azureClient c) (resourceGroup c) (name c)
                    (deref ?s4 (templateJSON c)) (deref ?s4 (parametersJSON c))"
        let ?s5 = "emit (DeployTemplateCall (resourceGroup c) (name c) ?d) ?s4"
        show thesis
        proof (cases ?d)
          case (Some e)
          with run rd en va have "r = Error (''Cannot deploy: '' @ e)" "s' = ?s5"
            by (auto simp add: createCluster_def Let_def)
          with s2 en va Some show thesis by (intro deploy[OF rd refl]) (simp_all add: added_def)
        next
          case None
          with run rd en va have "r = Success" "s' = ?s5"
            by (auto simp add: createCluster_def Let_def)
          with s2 en va None show thesis by (intro ok[OF rd refl]) (simp_all add: added_def)
        qed
      qed
    qed
  qed
qed

lemma trace_s_ok: "trace s_ok = []"
  by (simp add: s_ok_def)

lemma createCluster_w_invalid:
  "createCluster w_invalid c_ok s_ok =
     (Error ''Template invalid: InvalidTemplate'', c_ok,
      s_ok\<lparr>trace :=
         [ReadDir ''/root/acs1/kubeconfig'' None,
          Setenv ''KUBECONFIG'' ''/root/acs1/kubeconfig/kubeconfig.westus2.json'' None,
          EnsureResourceGroupCall ''kubetest-1-rg'' ''westus2'' None,
          ValidateDeploymentCall ''kubetest-1-rg'' ''kubetest-1'' (Some ''InvalidTemplate'')],
        env := (env s_ok)(''KUBECONFIG'' := ''/root/acs1/kubeconfig/kubeconfig.westus2.json'')\<rparr>)"
  by (simp add: createCluster_def Let_def os_Setenv_def setenv_invalid_def emit_def
        w_invalid_def w_ok_def c_ok_def s_ok_def join_slash_def err_of_def)

text \<open>
  C3. In every run of \<^verbatim>\<open>createCluster\<close>, a \<^verbatim>\<open>DeployTemplate\<close> call comes only after a
  \<^verbatim>\<open>ValidateDeployment\<close> call that returned no error. When the validation returns an
  error, the result is the error \<^verbatim>\<open>Template invalid: ...\<close> around it, which differs from
  every \<^verbatim>\<open>Cannot deploy: ...\<close> error (the one a failed submission gives), and the run has
  no \<^verbatim>\<open>DeployTemplate\<close> call.
\<close>

theorem validate_before_deploy:
  assumes "createCluster w c s = (r, c', s')"
  shows "deploy_after_valid False (added s s')
       \<and> (\<forall>g n err. ValidateDeploymentCall g n (Some err) \<in> set (added s s') \<longrightarrow>
             r = Error (''Template invalid: '' @ err)
           \<and> (\<forall>e2. r \<noteq> Error (''Cannot deploy: '' @ e2))
           \<and> (\<forall>g' n' d. DeployTemplateCall g' n' d \<notin> set (added s s')))
       \<and> (\<forall>g n err. DeployTemplateCall g n (Some err) \<in> set (added s s') \<longrightarrow>
             r = Error (''Cannot deploy: '' @ err))"
  using assms by (cases rule: createCluster_cases) simp_all

text \<open>An example for C3: the calls and the result when the cloud client rejects the template.\<close>

theorem validate_before_deploy_witness:
  "added s_ok (snd (snd (createCluster w_invalid c_ok s_ok))) =
     [ReadDir ''/root/acs1/kubeconfig'' None,
      Setenv ''KUBECONFIG'' ''/root/acs1/kubeconfig/kubeconfig.westus2.json'' None,
      EnsureResourceGroupCall ''kubetest-1-rg'' ''westus2'' None,
      ValidateDeploymentCall ''kubetest-1-rg'' ''kubetest-1'' (Some ''InvalidTemplate'')]
   \<and> fst (createCluster w_invalid c_ok s_ok) = Error ''Template invalid: InvalidTemplate''
   \<and> deploy_after_valid False (added s_ok (snd (snd (createCluster w_invalid c_ok s_ok))))"
  using validate_before_deploy[OF createCluster_w_invalid]
  by (simp add: createCluster_w_invalid added_def trace_s_ok)

text \<open>
  C10. \<^verbatim>\<open>createCluster\<close> lists the directory \<^verbatim>\<open>kubeconfig\<close> of the output directory, drops
  the error and takes entry 0. When the listing succeeds with at least one entry (and the
  path of the first entry holds no NUL byte, which \<^verbatim>\<open>os.Setenv\<close> refuses), the run does not
  panic, its first two calls are the listing and the setting of \<^verbatim>\<open>KUBECONFIG\<close> to the
  path of the first entry, every later call is a call to the cloud client, and the
  variable holds that path at the end. When the listing fails or is empty, the run panics
  with an index out of range, before any call to the cloud client.
\<close>

theorem kubeconfig_first_entry:
  assumes "createCluster w c s = (r, c', s')"
  shows "(\<forall>entry rest.
            ioutil_ReadDir w (trace s) (path_Join w [outputDir c, ''kubeconfig'']) = Inr (entry # rest)
            \<and> CHR 0x00 \<notin> set (path_Join w [outputDir c, ''kubeconfig'', entry]) \<longrightarrow>
              (\<forall>p. r \<noteq> Panic p)
            \<and> take 2 (added s s') =
                [ReadDir (path_Join w [outputDir c, ''kubeconfig'']) None,
                 Setenv ''KUBECONFIG'' (path_Join w [outputDir c, ''kubeconfig'', entry]) None]
            \<and> list_all cloud_event (drop 2 (added s s'))
            \<and> env s' ''KUBECONFIG'' = path_Join w [outputDir c, ''kubeconfig'', entry])
       \<and> ((\<forall>entry rest.
             ioutil_ReadDir w (trace s) (path_Join w [outputDir c, ''kubeconfig'']) \<noteq> Inr (entry # rest)) \<longrightarrow>
              r = Panic ''runtime error: index out of range''
            \<and> list_all (\<lambda>e. \<not> cloud_event e) (added s s'))"
  using assms
  by (cases rule: createCluster_cases)
     (auto simp add: setenv_invalid_def cloud_event_def split: sum.splits)

text \<open>Examples for C10: a directory with one entry, and a missing directory.\<close>

theorem kubeconfig_first_entry_witness:
  "env (snd (snd (createCluster w_ok c_ok s_ok))) ''KUBECONFIG'' =
     ''/root/acs1/kubeconfig/kubeconfig.westus2.json''
   \<and> take 2 (added s_ok (snd (snd (createCluster w_ok c_ok s_ok)))) =
       [ReadDir ''/root/acs1/kubeconfig'' None,
        Setenv ''KUBECONFIG'' ''/root/acs1/kubeconfig/kubeconfig.westus2.json'' None]
   \<and> list_all cloud_event (drop 2 (added s_ok (snd (snd (createCluster w_ok c_ok s_ok)))))
   \<and> fst (createCluster w_nodir c_ok s_ok) = Panic ''runtime error: index out of range''"
proof -
  have rd: "ioutil_ReadDir w_ok (trace s_ok) (path_Join w_ok [outputDir c_ok, ''kubeconfig'']) =
              Inr [''kubeconfig.westus2.json'']"
    and p: "path_Join w_ok [outputDir c_ok, ''kubeconfig'', ''kubeconfig.westus2.json''] =
              ''/root/acs1/kubeconfig/kubeconfig.westus2.json''"
    and d: "path_Join w_ok [outputDir c_ok, ''kubeconfig''] = ''/root/acs1/kubeconfig''"
    by (simp_all add: w_ok_def c_ok_def join_slash_def)
  have nul: "CHR 0x00 \<notin> set ''/root/acs1/kubeconfig/kubeconfig.westus2.json''" by simp
  have no: "\<forall>entry rest. ioutil_ReadDir w_nodir (trace s_ok)
              (path_Join w_nodir [outputDir c_ok, ''kubeconfig'']) \<noteq> Inr (entry # rest)"
    by (simp add: w_nodir_def w_ok_def)
  have run: "\<And>w. createCluster w c_ok s_ok =
     (fst (createCluster w c_ok s_ok), fst (snd (createCluster w c_ok s_ok)),
      snd (snd (createCluster w c_ok s_ok)))" by simp
  from kubeconfig_first_entry[OF run[of w_ok]] rd p d nul
    kubeconfig_first_entry[OF run[of w_nodir]] no
  show ?thesis by simp
qed

subsection \<open>Errors that are dropped, and a panic\<close>



text \<open>
  The type assertion at the end of \<^verbatim>\<open>loadARMTemplates\<close> panics on every value but a
  map.
\<close>

lemma unwrap_parameters_panics:
  assumes "\<And>inner. map_index s (parametersJSON c) ''parameters'' \<noteq> Some (JObject inner)"
  shows "unwrap_parameters c s =
     (Panic (''interface conversion: interface {} is ''
               @ go_type (map_index s (parametersJSON c) ''parameters'')
               @ '', not map[string]interface {}''), c, s)"
  using assms unfolding unwrap_parameters_def
  by (simp split: option.splits json.splits)

text \<open>
  C8, at a failing input: both ARM files hold the document \<^verbatim>\<open>{}\<close>, which parses, and has
  no \<^verbatim>\<open>parameters\<close> field. \<^verbatim>\<open>loadARMTemplates\<close> panics on the type assertion instead of
  returning an error.
\<close>

theorem loadARMTemplates_no_parameters_panics:
  "json_Unmarshal w_noparams ''{}'' = Inr (JObject [])
   \<and> fst (loadARMTemplates w_noparams c_ok s_ok) =
       Panic ''interface conversion: interface {} is nil, not map[string]interface {}''"
  by (simp add: loadARMTemplates_def Let_def json_Unmarshal_map_def unwrap_parameters_def
        map_index_def deref_def alloc_def go_type_def emit_def w_noparams_def w_ok_def
        parameters_doc_def s_ok_def)

text \<open>
  C6, at failing inputs: a credentials file that cannot be read, and one that does not
  parse. \<^verbatim>\<open>getAzCredentials\<close> returns the error; \<^verbatim>\<open>newAcsEngine\<close> does not look at it,
  goes on to \<^verbatim>\<open>getARMClient\<close> with the empty credentials, and returns a Cluster with
  these. Where \<open>getAzureClient\<close> refuses the empty client identity, the constructor
  returns that refusal, and not the error of the credentials file.
\<close>

theorem newAcsEngine_drops_credentials_error:
  "fst (getAzCredentials cfg_ok w_nocreds c_ok s_ok) =
     Some ''Error reading credentials file /root/creds.toml open /root/creds.toml: no such file or directory''
   \<and> \<not> isl (fst (newAcsEngine cfg_ok w_nocreds s_ok))
   \<and> credentials (projr (fst (newAcsEngine cfg_ok w_nocreds s_ok))) = empty_Creds
   \<and> fst (getAzCredentials cfg_ok w_badcreds c_ok s_ok) =
     Some ''Error parsing credentials file /root/creds.toml (1, 1): unexpected token''
   \<and> \<not> isl (fst (newAcsEngine cfg_ok w_badcreds s_ok))
   \<and> credentials (projr (fst (newAcsEngine cfg_ok w_badcreds s_ok))) = empty_Creds
   \<and> fst (newAcsEngine cfg_ok w_strict s_ok) =
     Inl (''Failed to generate ARM client: Error trying to get Azure Client: '' @
          ''parameter clientID cannot be empty'')
   \<and> added s_ok (snd (snd (newAcsEngine cfg_ok w_strict s_ok))) =
       [TempDir ''/root'' ''acs'' None,
        ReadFile ''/root/.ssh/id_rsa.pub'' None,
        ReadFile ''/root/creds.toml'' (Some ''open /root/creds.toml: no such file or directory''),
        GetAzureClient (Some ''parameter clientID cannot be empty'')]"
  by (simp add: newAcsEngine_def checkParams_def getAzCredentials_def getARMClient_def Let_def
        os_Setenv_def setenv_invalid_def emit_def err_of_def added_def empty_Creds_def
        w_strict_def w_nocreds_def w_badcreds_def w_ok_def cfg_ok_def s_ok_def)

subsection \<open>The download loop\<close>

lemma seconds_exact: "0 \<le> i \<Longrightarrow> i \<le> 9223372036 \<Longrightarrow> seconds i = i * 1000000000"
proof -
  assume a: "0 \<le> i" "i \<le> 9223372036"
  have "(word_of_int i * 1000000000 :: 64 word) = word_of_int (i * 1000000000)" by simp
  then have "seconds i = sint (word_of_int (i * 1000000000) :: 64 word)"
    unfolding seconds_def by (rule arg_cong)
  also have "\<dots> = signed_take_bit 63 (i * 1000000000)" by (subst sint_sbintrunc') simp
  also have "\<dots> = i * 1000000000"
    using a by (intro signed_take_bit_int_eq_self) simp_all
  finally show ?thesis .
qed

lemma attempts_simps [simp]:
  "attempts [] = 0" "attempts (HttpRead u x # evs) = Suc (attempts evs)"
  "attempts (Sleep d # evs) = attempts evs"
  by (simp_all add: attempts_def)

lemma sleeps_simps [simp]:
  "sleeps [] = []" "sleeps (HttpRead u x # evs) = sleeps evs"
  "sleeps (Sleep d # evs) = d # sleeps evs"
  by (simp_all add: sleeps_def)

text \<open>
  The loop when every attempt fails, from counter \<open>i < retry\<close> on: it makes
  \<open>retry - i\<close> attempts, sleeps after each attempt but the last, for the time the
  counter gives, and returns the variable \<^verbatim>\<open>err\<close> as the failed attempts leave it. That
  value is built from the URL, the path and the old \<^verbatim>\<open>err\<close> alone: the errors that
  \<^verbatim>\<open>httpRead\<close> returned are not in it.
\<close>

lemma download_loop_all_fail:
  assumes "download_loop w url p n i err s = (r, s')" and "i < n"
    and "\<And>t. httpRead w t url \<noteq> None"
  shows "r = err_after url p (nat (n - i)) err
       \<and> attempts (added s s') = nat (n - i)
       \<and> sleeps (added s s') = map seconds [i..n - 2]"
  using assms
proof (induction w url p n i err s arbitrary: r s' rule: download_loop.induct)
  case (1 w url p n i err s)
  let ?x = "httpRead w (trace s) url"
  let ?s1 = "emit (HttpRead url ?x) s"
  let ?e1 = "download_error url p err"
  let ?s2 = "emit (Sleep (seconds i)) ?s1"
  note run = "1.prems"(1)[unfolded download_loop_unfold[of w url p n i err s]]
  have lt: "i < n" by fact
  have fail: "?x \<noteq> None" by (rule "1.prems"(3))
  show ?case
  proof (cases "i = n - 1")
    case True
    from run lt fail True have "r = Some ?e1" "s' = ?s1" by auto
    moreover have "nat (n - i) = Suc 0" using True by simp
    moreover have "[i..n - 2] = []" using True by simp
    ultimately show ?thesis by (simp add: added_def)
  next
    case False
    from run have rec: "download_loop w url p n (i + 1) (Some ?e1) ?s2 = (r, s')"
      by (simp only: lt fail False if_True if_False)
    have lt': "i + 1 < n" using lt False by simp
    from "1.IH"[OF lt refl refl fail refl False rec lt' "1.prems"(3)]
    have ih: "r = err_after url p (nat (n - (i + 1))) (Some ?e1)"
      "attempts (added ?s2 s') = nat (n - (i + 1))"
      "sleeps (added ?s2 s') = map seconds [i + 1..n - 2]" by simp_all
    from download_loop_events[OF rec] obtain evs where evs: "trace s' = trace ?s2 @ evs" by blast
    then have a2: "added ?s2 s' = evs" by (simp add: added_def)
    from evs have a: "added s s' = HttpRead url ?x # Sleep (seconds i) # evs" by (simp add: added_def)
    have n: "nat (n - i) = Suc (nat (n - (i + 1)))" using lt by simp
    have u: "[i..n - 2] = i # [i + 1..n - 2]" using lt' by (simp add: upto_rec1)
    from ih a a2 n u show ?thesis by simp
  qed
qed

lemma err_after_Some: "\<exists>e. err_after url p k (Some x) = Some e"
  by (induction k arbitrary: x) simp_all

lemma err_after_pos: "0 < k \<Longrightarrow> \<exists>e. err_after url p k err = Some e"
  by (cases k) (simp_all add: err_after_Some)

lemma getZipBuildScript_all_fail:
  assumes "os_Create w (trace s) (path_Join w [env s ''HOME'', ''build-win-zip.sh'']) = None"
    and "1 \<le> n" and "\<And>t. httpRead w t url \<noteq> None"
  shows "map_sum Some id (fst (getZipBuildScript w url n s)) =
           Inl (err_after url (path_Join w [env s ''HOME'', ''build-win-zip.sh'']) (nat n) None)
       \<and> attempts (added s (snd (getZipBuildScript w url n s))) = nat n
       \<and> sleeps (added s (snd (getZipBuildScript w url n s))) = map seconds [0..n - 2]"
proof -
  let ?p = "path_Join w [env s ''HOME'', ''build-win-zip.sh'']"
  let ?s1 = "emit (Create ?p None) s"
  obtain r s2 where loop: "download_loop w url ?p n 0 None ?s1 = (r, s2)" by force
  from download_loop_all_fail[OF loop _ assms(3)] assms(2)
  have f: "r = err_after url ?p (nat n) None" "attempts (added ?s1 s2) = nat n"
    "sleeps (added ?s1 s2) = map seconds [0..n - 2]" by simp_all
  from download_loop_events[OF loop] obtain evs where evs: "trace s2 = trace ?s1 @ evs" by blast
  then have a: "added ?s1 s2 = evs" by (simp add: added_def)
  from err_after_pos[of "nat n" url ?p None] f(1) assms(2) obtain e where e: "r = Some e"
    by auto
  have run: "getZipBuildScript w url n s = (Inl e, emit (Close ?p) s2)"
    using assms(1) loop e by (simp add: getZipBuildScript_def Let_def)
  have "added s (emit (Close ?p) s2) = Create ?p None # evs @ [Close ?p]"
    using evs by (simp add: added_def)
  with f a e run show ?thesis by (simp add: attempts_def sleeps_def)
qed

text \<open>
  C2, at a failing input: two attempts, as \<^verbatim>\<open>Up\<close> asks for, both failing with
  \<^verbatim>\<open>connection refused\<close>. Each fetch makes two attempts and sleeps zero seconds between
  them, as C2 has it; but the error it returns is the message format around
  \<^verbatim>\<open><nil>\<close>, twice, and not the error of the last attempt, which the shadowed \<^verbatim>\<open>err\<close>
  took with it.
\<close>

theorem download_error_lost:
  "fst (getZipBuildScript w_down ''https://example.org/build-windows-k8s.sh'' 2 s_ok) =
     Inl (''url=https://example.org/build-windows-k8s.sh failed get /root/build-win-zip.sh: '' @
          ''url=https://example.org/build-windows-k8s.sh failed get /root/build-win-zip.sh: <nil>..'')
   \<and> added s_ok (snd (getZipBuildScript w_down ''https://example.org/build-windows-k8s.sh'' 2 s_ok)) =
       [Create ''/root/build-win-zip.sh'' None,
        HttpRead ''https://example.org/build-windows-k8s.sh'' (Some ''connection refused''),
        Sleep 0,
        HttpRead ''https://example.org/build-windows-k8s.sh'' (Some ''connection refused''),
        Close ''/root/build-win-zip.sh'']
   \<and> fst (getAcsEngine (cfg_ok\<lparr>acsEngineURL := ''https://example.org/acs-engine.tar.gz''\<rparr>)
          w_down 2 c_ok s_ok) =
     Error (''url=https://example.org/acs-engine.tar.gz failed get /root/acs-engine.tar.gz: '' @
            ''url=https://example.org/acs-engine.tar.gz failed get /root/acs-engine.tar.gz: <nil>..'')
   \<and> added s_ok (snd (snd (getAcsEngine (cfg_ok\<lparr>acsEngineURL := ''https://example.org/acs-engine.tar.gz''\<rparr>)
          w_down 2 c_ok s_ok))) =
       [Create ''/root/acs-engine.tar.gz'' None,
        HttpRead ''https://example.org/acs-engine.tar.gz'' (Some ''connection refused''),
        Sleep 0,
        HttpRead ''https://example.org/acs-engine.tar.gz'' (Some ''connection refused''),
        Close ''/root/acs-engine.tar.gz'']"
  by (simp add: getZipBuildScript_def getAcsEngine_def getAcsEngine_body_def Let_def
        download_loop_unfold download_error_def fmt_v_def seconds_def added_def trace_s_ok
        w_down_def w_ok_def join_slash_def cfg_ok_def) (simp add: s_ok_def)

subsection \<open>The checksum of the generator tool\<close>

text \<open>
  C5. In every run of \<^verbatim>\<open>getAcsEngine\<close>: with no checksum configured, no command output is
  captured at all, so \<^verbatim>\<open>md5sum\<close> is not run; with a checksum configured, once the file is
  created and the download loop is left without an error, \<^verbatim>\<open>md5sum\<close> is run on the
  downloaded file; and when the first field of what \<^verbatim>\<open>md5sum\<close> printed differs from the
  configured checksum, the result is the error \<^verbatim>\<open>Wrong md5 sum for acs-engine.\<close>, no
  command is run (so the archive is not extracted), and the Cluster keeps its generator
  binary path.
\<close>

theorem md5_check:
  assumes run: "getAcsEngine cfg w n c s = (r, c', s')"
  shows "(acsEngineMD5 cfg = '''' \<longrightarrow> (\<forall>cmd out. Output cmd out \<notin> set (added s s')))
       \<and> (acsEngineMD5 cfg \<noteq> ''''
            \<and> os_Create w (trace s) (path_Join w [env s ''HOME'', ''acs-engine.tar.gz'']) = None
            \<and> fst (download_loop w (acsEngineURL cfg) (path_Join w [env s ''HOME'', ''acs-engine.tar.gz''])
                      n 0 None
                      (emit (Create (path_Join w [env s ''HOME'', ''acs-engine.tar.gz'']) None) s)) = None \<longrightarrow>
              (\<exists>out. Output [''md5sum'', path_Join w [env s ''HOME'', ''acs-engine.tar.gz'']] out
                       \<in> set (added s s')))
       \<and> (\<forall>cmd out. Output cmd (Inr out) \<in> set (added s s')
              \<and> takeWhile (\<lambda>ch. ch \<noteq> CHR '' '') out \<noteq> acsEngineMD5 cfg \<longrightarrow>
                r = Error ''Wrong md5 sum for acs-engine.''
              \<and> (\<forall>cmd x. FinishRunning cmd x \<notin> set (added s s'))
              \<and> acsEngineBinaryPath c' = acsEngineBinaryPath c)"
proof -
  let ?p = "path_Join w [env s ''HOME'', ''acs-engine.tar.gz'']"
  let ?cr = "os_Create w (trace s) ?p"
  let ?s1 = "emit (Create ?p ?cr) s"
  show ?thesis
  proof (cases ?cr)
    case (Some e)
    with run have "s' = ?s1" by (auto simp add: getAcsEngine_def Let_def)
    then show ?thesis using Some by (simp add: added_def)
  next
    case None
    obtain x s2 where loop: "download_loop w (acsEngineURL cfg) ?p n 0 None ?s1 = (x, s2)" by force
    from download_loop_events[OF loop] obtain evs where
      evs: "trace s2 = trace ?s1 @ evs"
        "\<forall>e\<in>set evs. (\<exists>y. e = HttpRead (acsEngineURL cfg) y) \<or> (\<exists>d. e = Sleep d)"
      by blast
    have noout: "\<And>cmd out. Output cmd out \<notin> set evs" "\<And>cmd y. FinishRunning cmd y \<notin> set evs"
      using evs(2) by auto
    obtain rb cb sb where body: "getAcsEngine_body cfg w ?p n c ?s1 = (rb, cb, sb)"
      by (metis prod_cases3)
    from run None body have fin: "r = rb" "c' = cb" "s' = emit (Close ?p) sb"
      by (auto simp add: getAcsEngine_def Let_def)
    show ?thesis
    proof (cases x)
      case (Some e)
      with body loop have "sb = s2" by (auto simp add: getAcsEngine_body_def)
      with fin evs None have "added s s' = Create ?p None # evs @ [Close ?p]"
        by (simp add: added_def)
      with noout loop Some None show ?thesis by simp
    next
      case None
      note left = this
      let ?s2 = "emit (Close ?p) s2"
      show ?thesis
      proof (cases "acsEngineMD5 cfg = ''''")
        case True
        with body loop left
        have "\<exists>post. trace sb = trace ?s2 @ post \<and> (\<forall>cmd out. Output cmd out \<notin> set post)"
          unfolding getAcsEngine_body_def Let_def
          by (auto split: sum.splits option.splits if_splits prod.splits)
        then obtain post where "trace sb = trace ?s2 @ post" "\<And>cmd out. Output cmd out \<notin> set post"
          by blast
        with fin evs \<open>?cr = None\<close>
        have "added s s' = Create ?p None # evs @ Close ?p # post @ [Close ?p]"
          by (simp add: added_def)
        with noout \<open>\<And>cmd out. Output cmd out \<notin> set post\<close> True show ?thesis by simp
      next
        case False
        let ?o = "control_Output w (trace ?s2) [''md5sum'', ?p]"
        let ?s3 = "emit (Output [''md5sum'', ?p] ?o) ?s2"
        have "(\<exists>post. trace sb = trace ?s3 @ post \<and> (\<forall>cmd out. Output cmd out \<notin> set post)
                \<and> (\<forall>out. ?o = Inr out \<and> takeWhile (\<lambda>ch. ch \<noteq> CHR '' '') out \<noteq> acsEngineMD5 cfg \<longrightarrow>
                      post = [] \<and> rb = Error ''Wrong md5 sum for acs-engine.'' \<and> cb = c))"
          using body loop left False unfolding getAcsEngine_body_def Let_def
          by (auto split: sum.splits option.splits if_splits prod.splits)
        then obtain post where post: "trace sb = trace ?s3 @ post"
          "\<And>cmd out. Output cmd out \<notin> set post"
          "\<And>out. ?o = Inr out \<Longrightarrow> takeWhile (\<lambda>ch. ch \<noteq> CHR '' '') out \<noteq> acsEngineMD5 cfg \<Longrightarrow>
                      post = [] \<and> rb = Error ''Wrong md5 sum for acs-engine.'' \<and> cb = c"
          by blast
        with fin evs \<open>?cr = None\<close>
        have a: "added s s' =
                   Create ?p None # evs @ Close ?p # Output [''md5sum'', ?p] ?o # post @ [Close ?p]"
          by (simp add: added_def)
        show ?thesis
        proof (intro conjI allI impI)
          assume "acsEngineMD5 cfg = ''''"
          with False show "\<And>cmd out. Output cmd out \<notin> set (added s s')" by simp
        next
          show "\<exists>out. Output [''md5sum'', ?p] out \<in> set (added s s')" using a by auto
        next
          fix cmd out
          assume h: "Output cmd (Inr out) \<in> set (added s s')
                     \<and> takeWhile (\<lambda>ch. ch \<noteq> CHR '' '') out \<noteq> acsEngineMD5 cfg"
          with a noout post(2) have "?o = Inr out" by auto
          from post(3)[OF this] h have "post = []" "rb = Error ''Wrong md5 sum for acs-engine.''" "cb = c"
            by simp_all
          with a fin noout
          show "r = Error ''Wrong md5 sum for acs-engine.''"
            "\<And>cmd x. FinishRunning cmd x \<notin> set (added s s')"
            "acsEngineBinaryPath c' = acsEngineBinaryPath c" by simp_all
        qed
      qed
    qed
  qed
qed

text \<open>Examples for C5: a download whose checksum differs, and one with no checksum.\<close>

lemma getAcsEngine_cfg_md5:
  "getAcsEngine cfg_md5 w_ok 2 c_ok s_ok =
     (Error ''Wrong md5 sum for acs-engine.'', c_ok,
      s_ok\<lparr>trace :=
        [Create ''/root/acs-engine.tar.gz'' None,
         HttpRead ''https://example.org/acs-engine.tar.gz'' None,
         Close ''/root/acs-engine.tar.gz'',
         Output [''md5sum'', ''/root/acs-engine.tar.gz'']
           (Inr ''0cc175b9c0f1b6a831c399e269772661  /root/acs-engine.tar.gz''),
         Close ''/root/acs-engine.tar.gz'']\<rparr>)"
  by (simp add: getAcsEngine_def getAcsEngine_body_def Let_def download_loop_unfold emit_def
        w_ok_def join_slash_def cfg_md5_def cfg_ok_def s_ok_def)

lemma getAcsEngine_cfg_nomd5:
  "added s_ok (snd (snd (getAcsEngine cfg_nomd5 w_ok 2 c_ok s_ok))) =
     [Create ''/root/acs-engine.tar.gz'' None,
      HttpRead ''https://example.org/acs-engine.tar.gz'' None,
      Close ''/root/acs-engine.tar.gz'',
      Getwd None,
      FinishRunning [''tar'', ''-xzf'', ''/root/acs-engine.tar.gz'', ''--strip'', ''1''] None,
      Close ''/root/acs-engine.tar.gz'']"
  by (simp add: getAcsEngine_def getAcsEngine_body_def Let_def download_loop_unfold emit_def
        err_of_def added_def w_ok_def join_slash_def cfg_nomd5_def cfg_ok_def s_ok_def)

theorem md5_check_witness:
  "added s_ok (snd (snd (getAcsEngine cfg_md5 w_ok 2 c_ok s_ok))) =
     [Create ''/root/acs-engine.tar.gz'' None,
      HttpRead ''https://example.org/acs-engine.tar.gz'' None,
      Close ''/root/acs-engine.tar.gz'',
      Output [''md5sum'', ''/root/acs-engine.tar.gz'']
        (Inr ''0cc175b9c0f1b6a831c399e269772661  /root/acs-engine.tar.gz''),
      Close ''/root/acs-engine.tar.gz'']
   \<and> fst (getAcsEngine cfg_md5 w_ok 2 c_ok s_ok) = Error ''Wrong md5 sum for acs-engine.''
   \<and> acsEngineBinaryPath (fst (snd (getAcsEngine cfg_md5 w_ok 2 c_ok s_ok))) =
       acsEngineBinaryPath c_ok
   \<and> acsEngineMD5 cfg_nomd5 = ''''
   \<and> list_all (\<lambda>e. case e of Output cmd out \<Rightarrow> False | _ \<Rightarrow> True)
        (added s_ok (snd (snd (getAcsEngine cfg_nomd5 w_ok 2 c_ok s_ok))))"
proof -
  let ?out = "''0cc175b9c0f1b6a831c399e269772661  /root/acs-engine.tar.gz''"
  have tr: "added s_ok (snd (snd (getAcsEngine cfg_md5 w_ok 2 c_ok s_ok))) =
     [Create ''/root/acs-engine.tar.gz'' None,
      HttpRead ''https://example.org/acs-engine.tar.gz'' None,
      Close ''/root/acs-engine.tar.gz'',
      Output [''md5sum'', ''/root/acs-engine.tar.gz''] (Inr ?out),
      Close ''/root/acs-engine.tar.gz'']"
    by (simp add: getAcsEngine_cfg_md5 added_def trace_s_ok)
  have run: "\<And>cfg. getAcsEngine cfg w_ok 2 c_ok s_ok =
     (fst (getAcsEngine cfg w_ok 2 c_ok s_ok), fst (snd (getAcsEngine cfg w_ok 2 c_ok s_ok)),
      snd (snd (getAcsEngine cfg w_ok 2 c_ok s_ok)))" by simp
  have mismatch: "Output [''md5sum'', ''/root/acs-engine.tar.gz''] (Inr ?out)
        \<in> set (added s_ok (snd (snd (getAcsEngine cfg_md5 w_ok 2 c_ok s_ok))))
      \<and> takeWhile (\<lambda>ch. ch \<noteq> CHR '' '') ?out \<noteq> acsEngineMD5 cfg_md5"
  proof
    show "Output [''md5sum'', ''/root/acs-engine.tar.gz''] (Inr ?out)
        \<in> set (added s_ok (snd (snd (getAcsEngine cfg_md5 w_ok 2 c_ok s_ok))))"
      by (simp add: tr)
    show "takeWhile (\<lambda>ch. ch \<noteq> CHR '' '') ?out \<noteq> acsEngineMD5 cfg_md5"
      by (simp add: cfg_md5_def cfg_ok_def)
  qed
  have e: "acsEngineMD5 cfg_nomd5 = ''''" by (simp add: cfg_nomd5_def cfg_ok_def)
  from md5_check[OF run[of cfg_md5]] mismatch
  have "fst (getAcsEngine cfg_md5 w_ok 2 c_ok s_ok) = Error ''Wrong md5 sum for acs-engine.''
      \<and> acsEngineBinaryPath (fst (snd (getAcsEngine cfg_md5 w_ok 2 c_ok s_ok))) =
          acsEngineBinaryPath c_ok" by blast
  moreover from md5_check[OF run[of cfg_nomd5]] e
  have "\<forall>cmd out. Output cmd out \<notin> set (added s_ok (snd (snd (getAcsEngine cfg_nomd5 w_ok 2 c_ok s_ok))))"
    by blast
  then have "list_all (\<lambda>e. case e of Output cmd out \<Rightarrow> False | _ \<Rightarrow> True)
        (added s_ok (snd (snd (getAcsEngine cfg_nomd5 w_ok 2 c_ok s_ok))))"
    by (auto simp: list_all_iff split: event.splits)
  ultimately show ?thesis using tr e by simp
qed

subsection \<open>Up: its stages and its receiver\<close>

text \<open>
  C4. For each of the seven stages of \<^verbatim>\<open>Up\<close> in turn: when the stages before it have
  succeeded (or were skipped) and the stage returns an error, \<^verbatim>\<open>Up\<close> returns that error
  behind the stage's own prefix, in the state the failing stage left. So nothing is called
  after the failing stage: no later stage, and nothing that would undo an earlier one.
\<close>

theorem Up_stage_errors:
  "(acsHyperKubeURL cfg = '''' \<and> buildHyperKube w c s = (Error e, c1, s1) \<longrightarrow>
      Up cfg w c s = (Error (''Problem building hyperkube '' @ e), s1))
 \<and> ((if acsHyperKubeURL cfg = '''' then buildHyperKube w c s else (Success, c, s)) = (Success, c1, s1)
    \<and> acsWinBinariesURL cfg = '''' \<and> buildWinZip cfg w c1 s1 = (Error e, c2, s2) \<longrightarrow>
      Up cfg w c s = (Error (''Problem building windowsZipFile '' @ e), s2))
 \<and> ((if acsHyperKubeURL cfg = '''' then buildHyperKube w c s else (Success, c, s)) = (Success, c1, s1)
    \<and> (if acsWinBinariesURL cfg = '''' then buildWinZip cfg w c1 s1 else (Success, c1, s1)) = (Success, c2, s2)
    \<and> apiModelPath c2 = '''' \<and> generateTemplate cfg w c2 s2 = (Error e, c3, s3) \<longrightarrow>
      Up cfg w c s = (Error (''Failed to generate apiModel: '' @ e), s3))
 \<and> ((if acsHyperKubeURL cfg = '''' then buildHyperKube w c s else (Success, c, s)) = (Success, c1, s1)
    \<and> (if acsWinBinariesURL cfg = '''' then buildWinZip cfg w c1 s1 else (Success, c1, s1)) = (Success, c2, s2)
    \<and> (if apiModelPath c2 = '''' then generateTemplate cfg w c2 s2 else (Success, c2, s2)) = (Success, c3, s3)
    \<and> acsEngineURL cfg \<noteq> '''' \<and> getAcsEngine cfg w 2 c3 s3 = (Error e, c4, s4) \<longrightarrow>
      Up cfg w c s = (Error (''Failed to get ACS Engine binary: '' @ e), s4))
 \<and> ((if acsHyperKubeURL cfg = '''' then buildHyperKube w c s else (Success, c, s)) = (Success, c1, s1)
    \<and> (if acsWinBinariesURL cfg = '''' then buildWinZip cfg w c1 s1 else (Success, c1, s1)) = (Success, c2, s2)
    \<and> (if apiModelPath c2 = '''' then generateTemplate cfg w c2 s2 else (Success, c2, s2)) = (Success, c3, s3)
    \<and> (if acsEngineURL cfg \<noteq> '''' then getAcsEngine cfg w 2 c3 s3 else (Success, c3, s3)) = (Success, c4, s4)
    \<and> generateARMTemplates w c4 s4 = (Error e, s5) \<longrightarrow>
      Up cfg w c s = (Error (''Failed to generate ARM templates: '' @ e), s5))
 \<and> ((if acsHyperKubeURL cfg = '''' then buildHyperKube w c s else (Success, c, s)) = (Success, c1, s1)
    \<and> (if acsWinBinariesURL cfg = '''' then buildWinZip cfg w c1 s1 else (Success, c1, s1)) = (Success, c2, s2)
    \<and> (if apiModelPath c2 = '''' then generateTemplate cfg w c2 s2 else (Success, c2, s2)) = (Success, c3, s3)
    \<and> (if acsEngineURL cfg \<noteq> '''' then getAcsEngine cfg w 2 c3 s3 else (Success, c3, s3)) = (Success, c4, s4)
    \<and> generateARMTemplates w c4 s4 = (Success, s5)
    \<and> loadARMTemplates w c4 s5 = (Error e, c6, s6) \<longrightarrow>
      Up cfg w c s = (Error (''Error loading ARM templates: '' @ e), s6))
 \<and> ((if acsHyperKubeURL cfg = '''' then buildHyperKube w c s else (Success, c, s)) = (Success, c1, s1)
    \<and> (if acsWinBinariesURL cfg = '''' then buildWinZip cfg w c1 s1 else (Success, c1, s1)) = (Success, c2, s2)
    \<and> (if apiModelPath c2 = '''' then generateTemplate cfg w c2 s2 else (Success, c2, s2)) = (Success, c3, s3)
    \<and> (if acsEngineURL cfg \<noteq> '''' then getAcsEngine cfg w 2 c3 s3 else (Success, c3, s3)) = (Success, c4, s4)
    \<and> generateARMTemplates w c4 s4 = (Success, s5)
    \<and> loadARMTemplates w c4 s5 = (Success, c6, s6)
    \<and> createCluster w c6 s6 = (Error e, c7, s7) \<longrightarrow>
      Up cfg w c s = (Error (''Error creating cluster: '' @ e), s7))"
  by (intro conjI impI; elim conjE; simp add: Up_def)

text \<open>Examples for C4: one failing run for each stage.\<close>

theorem Up_stage_errors_witness:
  "fst (Up cfg_build_hk w_script_fails c_ok s_ok) =
     Error ''Problem building hyperkube exit status 1''
   \<and> fst (Up cfg_build_zip w_readonly c_ok s_ok) =
     Error ''Problem building windowsZipFile permission denied''
   \<and> fst (Up cfg_ok w_disk_full c_ok s_ok) =
     Error ''Failed to generate apiModel: Cannot write to file: no space left on device''
   \<and> fst (Up cfg_nomd5 w_readonly c_ok s_ok) =
     Error ''Failed to get ACS Engine binary: permission denied''
   \<and> fst (Up cfg_ok w_script_fails c_ok s_ok) =
     Error ''Failed to generate ARM templates: Failed to generate ARM templates: exit status 1.''
   \<and> fst (Up cfg_ok w_nofiles c_ok s_ok) =
     Error ''Error loading ARM templates: Error reading ARM template file: no such file or directory.''
   \<and> fst (Up cfg_ok w_denied c_ok s_ok) =
     Error ''Error creating cluster: Could not ensure resource group: AuthorizationFailed''"
proof -
  have g: "acsHyperKubeURL cfg_ok \<noteq> ''''" "acsWinBinariesURL cfg_ok \<noteq> ''''"
    "acsEngineURL cfg_ok = ''''" "apiModelPath c_ok = ''''"
    "acsHyperKubeURL cfg_build_hk = ''''"
    "acsHyperKubeURL cfg_build_zip \<noteq> ''''" "acsWinBinariesURL cfg_build_zip = ''''"
    "acsHyperKubeURL cfg_nomd5 \<noteq> ''''" "acsWinBinariesURL cfg_nomd5 \<noteq> ''''"
    "acsEngineURL cfg_nomd5 \<noteq> ''''"
    by (simp_all add: cfg_ok_def c_ok_def cfg_build_hk_def cfg_build_zip_def cfg_nomd5_def)
  have 1: "fst (Up cfg_build_hk w_script_fails c_ok s_ok) =
             Error ''Problem building hyperkube exit status 1''"
  proof -
    let ?g1 = "buildHyperKube w_script_fails c_ok s_ok"
    have "fst ?g1 = Error ''exit status 1''"
      by (simp add: buildHyperKube_def Let_def w_script_fails_def w_ok_def)
    with g Up_stage_errors[where cfg = cfg_build_hk and w = w_script_fails and c = c_ok and s = s_ok
        and e = "''exit status 1''" and ?c1.0 = "fst (snd ?g1)" and ?s1.0 = "snd (snd ?g1)",
        THEN conjunct1]
    show ?thesis by (simp add: prod_eq_iff)
  qed
  have 2: "fst (Up cfg_build_zip w_readonly c_ok s_ok) =
             Error ''Problem building windowsZipFile permission denied''"
  proof -
    let ?g2 = "buildWinZip cfg_build_zip w_readonly c_ok s_ok"
    have "fst ?g2 = Error ''permission denied''"
      by (simp add: buildWinZip_def getZipBuildScript_def Let_def w_readonly_def w_ok_def)
    with g Up_stage_errors[where cfg = cfg_build_zip and w = w_readonly and c = c_ok and s = s_ok
        and e = "''permission denied''" and ?c1.0 = c_ok and ?s1.0 = s_ok
        and ?c2.0 = "fst (snd ?g2)" and ?s2.0 = "snd (snd ?g2)",
        THEN conjunct2, THEN conjunct1]
    show ?thesis by (simp add: prod_eq_iff)
  qed
  have 3: "fst (Up cfg_ok w_disk_full c_ok s_ok) =
             Error ''Failed to generate apiModel: Cannot write to file: no space left on device''"
  proof -
    let ?g3 = "generateTemplate cfg_ok w_disk_full c_ok s_ok"
    have "fst ?g3 = Error ''Cannot write to file: no space left on device''"
      by (simp add: generateTemplate_def Let_def w_disk_full_def w_ok_def)
    with g Up_stage_errors[where cfg = cfg_ok and w = w_disk_full and c = c_ok and s = s_ok
        and e = "''Cannot write to file: no space left on device''"
        and ?c1.0 = c_ok and ?s1.0 = s_ok and ?c2.0 = c_ok and ?s2.0 = s_ok
        and ?c3.0 = "fst (snd ?g3)" and ?s3.0 = "snd (snd ?g3)",
        THEN conjunct2, THEN conjunct2, THEN conjunct1]
    show ?thesis by (simp add: prod_eq_iff)
  qed
  have 4: "fst (Up cfg_nomd5 w_readonly c_ok s_ok) =
             Error ''Failed to get ACS Engine binary: permission denied''"
  proof -
    let ?g3 = "generateTemplate cfg_nomd5 w_readonly c_ok s_ok"
    let ?g4 = "getAcsEngine cfg_nomd5 w_readonly 2 (fst (snd ?g3)) (snd (snd ?g3))"
    have "fst ?g3 = Success"
      by (simp add: generateTemplate_def Let_def w_readonly_def w_ok_def)
    moreover have "fst ?g4 = Error ''permission denied''"
      by (simp add: getAcsEngine_def Let_def w_readonly_def w_ok_def)
    ultimately show ?thesis
      using g Up_stage_errors[where cfg = cfg_nomd5 and w = w_readonly and c = c_ok and s = s_ok
        and e = "''permission denied''"
        and ?c1.0 = c_ok and ?s1.0 = s_ok and ?c2.0 = c_ok and ?s2.0 = s_ok
        and ?c3.0 = "fst (snd ?g3)" and ?s3.0 = "snd (snd ?g3)"
        and ?c4.0 = "fst (snd ?g4)" and ?s4.0 = "snd (snd ?g4)",
        THEN conjunct2, THEN conjunct2, THEN conjunct2, THEN conjunct1]
      by (simp add: prod_eq_iff)
  qed
  have 5: "fst (Up cfg_ok w_script_fails c_ok s_ok) =
             Error ''Failed to generate ARM templates: Failed to generate ARM templates: exit status 1.''"
  proof -
    let ?g3 = "generateTemplate cfg_ok w_script_fails c_ok s_ok"
    let ?g5 = "generateARMTemplates w_script_fails (fst (snd ?g3)) (snd (snd ?g3))"
    have "fst ?g3 = Success"
      by (simp add: generateTemplate_def Let_def w_script_fails_def w_ok_def)
    moreover have "fst ?g5 = Error ''Failed to generate ARM templates: exit status 1.''"
      by (simp add: generateARMTemplates_def Let_def w_script_fails_def w_ok_def)
    ultimately show ?thesis
      using g Up_stage_errors[where cfg = cfg_ok and w = w_script_fails and c = c_ok and s = s_ok
        and e = "''Failed to generate ARM templates: exit status 1.''"
        and ?c1.0 = c_ok and ?s1.0 = s_ok and ?c2.0 = c_ok and ?s2.0 = s_ok
        and ?c3.0 = "fst (snd ?g3)" and ?s3.0 = "snd (snd ?g3)"
        and ?c4.0 = "fst (snd ?g3)" and ?s4.0 = "snd (snd ?g3)" and ?s5.0 = "snd ?g5",
        THEN conjunct2, THEN conjunct2, THEN conjunct2, THEN conjunct2, THEN conjunct1]
      by (simp add: prod_eq_iff)
  qed
  have 6: "fst (Up cfg_ok w_nofiles c_ok s_ok) =
             Error ''Error loading ARM templates: Error reading ARM template file: no such file or directory.''"
  proof -
    let ?g3 = "generateTemplate cfg_ok w_nofiles c_ok s_ok"
    let ?g5 = "generateARMTemplates w_nofiles (fst (snd ?g3)) (snd (snd ?g3))"
    let ?g6 = "loadARMTemplates w_nofiles (fst (snd ?g3)) (snd ?g5)"
    have "fst ?g3 = Success"
      by (simp add: generateTemplate_def Let_def w_nofiles_def w_ok_def)
    moreover have "fst ?g5 = Success"
      by (simp add: generateARMTemplates_def Let_def w_nofiles_def w_ok_def)
    moreover have "fst ?g6 = Error ''Error reading ARM template file: no such file or directory.''"
      by (simp add: loadARMTemplates_def Let_def w_nofiles_def w_ok_def)
    ultimately show ?thesis
      using g Up_stage_errors[where cfg = cfg_ok and w = w_nofiles and c = c_ok and s = s_ok
        and e = "''Error reading ARM template file: no such file or directory.''"
        and ?c1.0 = c_ok and ?s1.0 = s_ok and ?c2.0 = c_ok and ?s2.0 = s_ok
        and ?c3.0 = "fst (snd ?g3)" and ?s3.0 = "snd (snd ?g3)"
        and ?c4.0 = "fst (snd ?g3)" and ?s4.0 = "snd (snd ?g3)" and ?s5.0 = "snd ?g5"
        and ?c6.0 = "fst (snd ?g6)" and ?s6.0 = "snd (snd ?g6)",
        THEN conjunct2, THEN conjunct2, THEN conjunct2, THEN conjunct2, THEN conjunct2,
        THEN conjunct1]
      by (simp add: prod_eq_iff)
  qed
  have 7: "fst (Up cfg_ok w_denied c_ok s_ok) =
             Error ''Error creating cluster: Could not ensure resource group: AuthorizationFailed''"
  proof -
    let ?g3 = "generateTemplate cfg_ok w_denied c_ok s_ok"
    let ?g5 = "generateARMTemplates w_denied (fst (snd ?g3)) (snd (snd ?g3))"
    let ?g6 = "loadARMTemplates w_denied (fst (snd ?g3)) (snd ?g5)"
    let ?g7 = "createCluster w_denied (fst (snd ?g6)) (snd (snd ?g6))"
    have "fst ?g3 = Success"
      by (simp add: generateTemplate_def Let_def w_denied_def w_ok_def)
    moreover have "fst ?g5 = Success"
      by (simp add: generateARMTemplates_def Let_def w_denied_def w_ok_def)
    moreover have "fst ?g6 = Success"
      by (simp add: loadARMTemplates_def json_Unmarshal_map_def unwrap_parameters_def map_index_def
            deref_def alloc_def Let_def emit_def w_denied_def w_ok_def parameters_doc_def
            generateARMTemplates_def generateTemplate_def)
    moreover have "fst ?g7 = Error ''Could not ensure resource group: AuthorizationFailed''"
      by (simp add: createCluster_def Let_def w_denied_def w_ok_def)
    ultimately show ?thesis
      using g Up_stage_errors[where cfg = cfg_ok and w = w_denied and c = c_ok and s = s_ok
        and e = "''Could not ensure resource group: AuthorizationFailed''"
        and ?c1.0 = c_ok and ?s1.0 = s_ok and ?c2.0 = c_ok and ?s2.0 = s_ok
        and ?c3.0 = "fst (snd ?g3)" and ?s3.0 = "snd (snd ?g3)"
        and ?c4.0 = "fst (snd ?g3)" and ?s4.0 = "snd (snd ?g3)" and ?s5.0 = "snd ?g5"
        and ?c6.0 = "fst (snd ?g6)" and ?s6.0 = "snd (snd ?g6)"
        and ?c7.0 = "fst (snd ?g7)" and ?s7.0 = "snd (snd ?g7)",
        THEN conjunct2, THEN conjunct2, THEN conjunct2, THEN conjunct2, THEN conjunct2,
        THEN conjunct2]
      by (simp add: prod_eq_iff)
  qed
  from 1 2 3 4 5 6 7 show ?thesis by simp
qed

text \<open>
  \<^verbatim>\<open>Up\<close> writes into no map that was there before it: it only allocates.
\<close>

lemma Up_heap_frame:
  assumes "Up cfg w c s = (r, s')"
  shows "frame (\<lambda>e. True) s s'"
proof (rule Up_frame[OF assms])
  fix x c1 s1
  assume "(if acsHyperKubeURL cfg = '''' then buildHyperKube w c s else (Success, c, s)) = (x, c1, s1)"
  then show "frame (\<lambda>e. True) s s1"
    by (rule guard_frame[OF _ frame_refl]) (rule buildHyperKube_frame[OF _ frame_refl])
qed simp

text \<open>
  C9. A call of \<^verbatim>\<open>Up\<close> leaves the caller's Cluster as it was, whatever the result: the
  struct is the same, field by field, and the maps its two map fields refer to (maps made
  before the call) hold what they held. The writes of the stages go to the receiver's
  copy, and \<^verbatim>\<open>loadARMTemplates\<close> decodes into maps it has just made.
\<close>

theorem Up_leaves_caller_cluster:
  assumes "call_Up cfg w p = (r, p')"
    and "\<forall>a. templateJSON (cluster_obj p) = Some a \<longrightarrow> a < next_addr (st p)"
    and "\<forall>a. parametersJSON (cluster_obj p) = Some a \<longrightarrow> a < next_addr (st p)"
  shows "cluster_obj p' = cluster_obj p
       \<and> deref (st p') (templateJSON (cluster_obj p')) = deref (st p) (templateJSON (cluster_obj p))
       \<and> deref (st p') (parametersJSON (cluster_obj p')) = deref (st p) (parametersJSON (cluster_obj p))
       \<and> (\<forall>a < next_addr (st p). heap (st p') a = heap (st p) a)"
proof -
  obtain s' where up: "Up cfg w (cluster_obj p) (st p) = (r, s')" and p': "p' = p\<lparr>st := s'\<rparr>"
    using assms(1) by (auto simp add: call_Up_def split: prod.splits)
  from Up_heap_frame[OF up] have h: "\<forall>a < next_addr (st p). heap s' a = heap (st p) a"
    by (simp add: frame_def)
  with assms(2,3) p' show ?thesis
    by (auto simp add: deref_def split: option.splits)
qed

text \<open>
  A run of \<^verbatim>\<open>Up\<close> in which every call succeeds: its calls in order, and the three maps
  it allocates after the caller's one.
\<close>

lemma Up_example:
  "fst (Up cfg_ok w_ok (c_ok\<lparr>templateJSON := Some 0\<rparr>) s_heap) = Success
   \<and> added s_heap (snd (Up cfg_ok w_ok (c_ok\<lparr>templateJSON := Some 0\<rparr>) s_heap)) =
       [Now,
        WriteFile ''/root/acs1/kubernetes.json'' ''{}'' None,
        FinishRunning [''acs-engine'', ''generate'', ''/root/acs1/kubernetes.json'',
                       ''--output-directory'', ''/root/acs1''] None,
        ReadFile ''/root/acs1/azuredeploy.json'' None,
        ReadFile ''/root/acs1/azuredeploy.parameters.json'' None,
        ReadDir ''/root/acs1/kubeconfig'' None,
        Setenv ''KUBECONFIG'' ''/root/acs1/kubeconfig/kubeconfig.westus2.json'' None,
        EnsureResourceGroupCall ''kubetest-1-rg'' ''westus2'' None,
        ValidateDeploymentCall ''kubetest-1-rg'' ''kubetest-1'' None,
        DeployTemplateCall ''kubetest-1-rg'' ''kubetest-1'' None]
   \<and> next_addr (snd (Up cfg_ok w_ok (c_ok\<lparr>templateJSON := Some 0\<rparr>) s_heap)) = 4"
  by (simp add: Up_def generateTemplate_def generateARMTemplates_def loadARMTemplates_def
        json_Unmarshal_map_def unwrap_parameters_def map_index_def deref_def alloc_def
        createCluster_def os_Setenv_def setenv_invalid_def Let_def emit_def err_of_def added_def
        w_ok_def cfg_ok_def c_ok_def s_heap_def s_ok_def join_slash_def parameters_doc_def)

text \<open>An example for C9: after that run the caller's template map is as before.\<close>

theorem Up_leaves_caller_cluster_witness:
  "fst (call_Up cfg_ok w_ok p_ok) = Success
   \<and> next_addr (st (snd (call_Up cfg_ok w_ok p_ok))) = 4
   \<and> cluster_obj (snd (call_Up cfg_ok w_ok p_ok)) = c_ok\<lparr>templateJSON := Some 0\<rparr>
   \<and> deref (st (snd (call_Up cfg_ok w_ok p_ok)))
        (templateJSON (cluster_obj (snd (call_Up cfg_ok w_ok p_ok)))) =
       Some [(''contentVersion'', JString ''1.0.0.0'')]"
proof -
  have run: "call_Up cfg_ok w_ok p_ok = (fst (call_Up cfg_ok w_ok p_ok), snd (call_Up cfg_ok w_ok p_ok))"
    by simp
  have a: "\<forall>a. templateJSON (cluster_obj p_ok) = Some a \<longrightarrow> a < next_addr (st p_ok)"
    "\<forall>a. parametersJSON (cluster_obj p_ok) = Some a \<longrightarrow> a < next_addr (st p_ok)"
    by (simp_all add: p_ok_def s_heap_def c_ok_def)
  have ev: "fst (call_Up cfg_ok w_ok p_ok) = Success"
    "next_addr (st (snd (call_Up cfg_ok w_ok p_ok))) = 4"
    using Up_example by (auto simp add: call_Up_def p_ok_def split: prod.splits)
  have before: "cluster_obj p_ok = c_ok\<lparr>templateJSON := Some 0\<rparr>"
    "deref (st p_ok) (templateJSON (cluster_obj p_ok)) = Some [(''contentVersion'', JString ''1.0.0.0'')]"
    by (simp_all add: p_ok_def s_heap_def deref_def)
  from Up_leaves_caller_cluster[OF run a] ev before show ?thesis by (elim conjE) simp
qed

end
